theory Spec2Isabelle
  imports Complex_Main "HOL-Library.AList"
begin

section \<open>The table\<close>

text \<open>
  The notebooks work on a pandas table read from a CSV file. A numeric column holds
  floating-point numbers (doubles); they are idealised here as exact reals extended with
  the two infinities and NaN: the rounding of a result to the nearest double is not
  modelled and there is one zero, but a result beyond the range of the doubles overflows
  to an infinity. NaN is how pandas stores a missing number. A text column (dtype object)
  holds strings, a missing entry is None.
\<close>

datatype number = Fin real | PosInf | NegInf | NaN

datatype column = NumCol "number list" | ObjCol "string option list"

datatype error = KeyError | TypeError | IndexError | ValueError

text \<open>
  A table: the row labels, and the named columns in their order. \<open>read_csv\<close> gives the
  labels \<open>0, 1, 2, ...\<close> and distinct column names; every column is as long as the labels.
\<close>

record dataframe =
  index :: "nat list"
  columns :: "(string \<times> column) list"

definition col_names :: "dataframe \<Rightarrow> string list" where
  "col_names df = map fst (columns df)"

definition get_col :: "dataframe \<Rightarrow> string \<Rightarrow> column option" where
  "get_col df c = map_of (columns df) c"

definition len :: "dataframe \<Rightarrow> nat" where
  "len df = length (index df)"

fun col_len :: "column \<Rightarrow> nat" where
  "col_len (NumCol xs) = length xs"
| "col_len (ObjCol xs) = length xs"

definition wf_df :: "dataframe \<Rightarrow> bool" where
  "wf_df df \<longleftrightarrow>
     distinct (index df) \<and> distinct (col_names df) \<and>
     list_all (\<lambda>(n, c). col_len c = len df) (columns df)"

subsection \<open>Arithmetic on numbers\<close>

text \<open>
  The result of an arithmetic operation on doubles whose exact value is \<open>r\<close>: the
  largest double is \<open>2^1024 - 2^971\<close>, and rounding to nearest gives an infinity as soon
  as the magnitude of \<open>r\<close> reaches \<open>2^1024 - 2^970\<close>, about \<open>1.797e308\<close>.
\<close>

definition overflow_threshold :: real where
  "overflow_threshold = 2 ^ 1024 - 2 ^ 970"

definition to_double :: "real \<Rightarrow> number" where
  "to_double r =
     (if overflow_threshold \<le> r then PosInf
      else if r \<le> - overflow_threshold then NegInf
      else Fin r)"

text \<open>IEEE division, on the idealised numbers: a finite number over zero is an infinity,
  zero over zero and infinity over infinity are NaN, NaN propagates.\<close>

fun fdiv :: "number \<Rightarrow> number \<Rightarrow> number" where
  "fdiv NaN y = NaN"
| "fdiv (Fin a) NaN = NaN"
| "fdiv PosInf NaN = NaN"
| "fdiv NegInf NaN = NaN"
| "fdiv (Fin a) (Fin b) =
     (if b = 0 then (if a = 0 then NaN else if 0 < a then PosInf else NegInf)
      else to_double (a / b))"
| "fdiv (Fin a) PosInf = Fin 0"
| "fdiv (Fin a) NegInf = Fin 0"
| "fdiv PosInf (Fin b) = (if 0 \<le> b then PosInf else NegInf)"
| "fdiv NegInf (Fin b) = (if 0 \<le> b then NegInf else PosInf)"
| "fdiv PosInf PosInf = NaN"
| "fdiv PosInf NegInf = NaN"
| "fdiv NegInf PosInf = NaN"
| "fdiv NegInf NegInf = NaN"

fun fadd :: "number \<Rightarrow> number \<Rightarrow> number" where
  "fadd NaN y = NaN"
| "fadd (Fin a) NaN = NaN"
| "fadd PosInf NaN = NaN"
| "fadd NegInf NaN = NaN"
| "fadd (Fin a) (Fin b) = to_double (a + b)"
| "fadd (Fin a) PosInf = PosInf"
| "fadd (Fin a) NegInf = NegInf"
| "fadd PosInf (Fin b) = PosInf"
| "fadd NegInf (Fin b) = NegInf"
| "fadd PosInf PosInf = PosInf"
| "fadd NegInf NegInf = NegInf"
| "fadd PosInf NegInf = NaN"
| "fadd NegInf PosInf = NaN"

fun fmul :: "number \<Rightarrow> number \<Rightarrow> number" where
  "fmul NaN y = NaN"
| "fmul (Fin a) NaN = NaN"
| "fmul PosInf NaN = NaN"
| "fmul NegInf NaN = NaN"
| "fmul (Fin a) (Fin b) = to_double (a * b)"
| "fmul (Fin a) PosInf = (if a = 0 then NaN else if 0 < a then PosInf else NegInf)"
| "fmul (Fin a) NegInf = (if a = 0 then NaN else if 0 < a then NegInf else PosInf)"
| "fmul PosInf (Fin b) = (if b = 0 then NaN else if 0 < b then PosInf else NegInf)"
| "fmul NegInf (Fin b) = (if b = 0 then NaN else if 0 < b then NegInf else PosInf)"
| "fmul PosInf PosInf = PosInf"
| "fmul NegInf NegInf = PosInf"
| "fmul PosInf NegInf = NegInf"
| "fmul NegInf PosInf = NegInf"

text \<open>\<open>np.log1p\<close>: the logarithm of \<open>1 + x\<close>; minus infinity at \<open>-1\<close>, NaN below.\<close>

fun log1p :: "number \<Rightarrow> number" where
  "log1p NaN = NaN"
| "log1p (Fin a) = (if a < - 1 then NaN else if a = - 1 then NegInf else Fin (ln (1 + a)))"
| "log1p PosInf = PosInf"
| "log1p NegInf = NaN"

text \<open>The comparison \<open><\<close>: false as soon as one side is NaN.\<close>

fun fless :: "number \<Rightarrow> number \<Rightarrow> bool" where
  "fless NaN y = False"
| "fless (Fin a) NaN = False"
| "fless PosInf NaN = False"
| "fless NegInf NaN = False"
| "fless (Fin a) (Fin b) = (a < b)"
| "fless (Fin a) PosInf = True"
| "fless (Fin a) NegInf = False"
| "fless PosInf y = False"
| "fless NegInf (Fin b) = True"
| "fless NegInf PosInf = True"
| "fless NegInf NegInf = False"

subsection \<open>Column statistics\<close>

text \<open>\<open>isna\<close>: the mask of the missing entries of a column.\<close>

fun isna :: "column \<Rightarrow> bool list" where
  "isna (NumCol xs) = map (\<lambda>x. x = NaN) xs"
| "isna (ObjCol xs) = map (\<lambda>x. x = None) xs"

definition isna_sum :: "column \<Rightarrow> nat" where
  "isna_sum c = length (filter id (isna c))"

definition notnull_sum :: "column \<Rightarrow> nat" where
  "notnull_sum c = length (filter Not (isna c))"

text \<open>\<open>nunique\<close>: the number of distinct values, the missing ones left out.\<close>

fun nunique :: "column \<Rightarrow> nat" where
  "nunique (NumCol xs) = length (remdups (filter (\<lambda>x. x \<noteq> NaN) xs))"
| "nunique (ObjCol xs) = length (remdups (filter (\<lambda>x. x \<noteq> None) xs))"

text \<open>Row selection by a boolean mask, as \<open>df[mask]\<close> does.\<close>

definition select :: "bool list \<Rightarrow> 'a list \<Rightarrow> 'a list" where
  "select msk xs = map snd (filter fst (zip msk xs))"

fun col_select :: "bool list \<Rightarrow> column \<Rightarrow> column" where
  "col_select msk (NumCol xs) = NumCol (select msk xs)"
| "col_select msk (ObjCol xs) = ObjCol (select msk xs)"

definition filter_rows :: "bool list \<Rightarrow> dataframe \<Rightarrow> dataframe" where
  "filter_rows msk df =
     \<lparr>index = select msk (index df),
      columns = map (\<lambda>(n, c). (n, col_select msk c)) (columns df)\<rparr>"

section \<open>The feature pipeline\<close>

definition target :: string where
  "target = ''pH_H2O''"

definition categorical_candidates :: "string list" where
  "categorical_candidates =
     [''Depth'', ''LC'', ''LU'', ''USDA'', ''ISSS'', ''NUTS_0'', ''LC0_Desc'', ''LC1_Desc'', ''LU1_Desc'']"

text \<open>\<open>categorical_cols = [col for col in categorical_cols if col in df.columns]\<close>\<close>

definition categorical_cols :: "dataframe \<Rightarrow> string list" where
  "categorical_cols df = filter (\<lambda>c. c \<in> set (col_names df)) categorical_candidates"

text \<open>
  \<open>df[col].isna().sum() / len(df)\<close>: a numpy integer divided by an integer, a float
  division that gives NaN (with a warning, no exception) on a table with no rows.
\<close>

definition missing_rate :: "dataframe \<Rightarrow> column \<Rightarrow> number" where
  "missing_rate df c = fdiv (Fin (real (isna_sum c))) (Fin (real (len df)))"

text \<open>The loop that keeps a candidate with fewer than 30 distinct values and a missing rate
  below 0.3.\<close>

definition keep_cat :: "dataframe \<Rightarrow> string \<Rightarrow> bool" where
  "keep_cat df c =
     (case get_col df c of
        None \<Rightarrow> False
      | Some col \<Rightarrow> nunique col < 30 \<and> fless (missing_rate df col) (Fin (3 / 10)))"

definition filtered_cat_cols :: "dataframe \<Rightarrow> string list" where
  "filtered_cat_cols df = filter (keep_cat df) (categorical_cols df)"

text \<open>\<open>df.dropna(subset=[target])\<close>: the rows whose target is present; KeyError when the
  table has no such column.\<close>

definition dropna :: "string \<Rightarrow> dataframe \<Rightarrow> error + dataframe" where
  "dropna t df =
     (case get_col df t of
        None \<Rightarrow> Inl KeyError
      | Some c \<Rightarrow> Inr (filter_rows (map Not (isna c)) df))"

subsection \<open>Engineered features\<close>

text \<open>\<open>.replace(0, 0.001)\<close> gives a new column in which each zero is 0.001; the column of
  the table is not touched. No text equals the number zero.\<close>

fun replace_zero :: "column \<Rightarrow> column" where
  "replace_zero (NumCol xs) = NumCol (map (\<lambda>x. if x = Fin 0 then Fin (1 / 1000) else x) xs)"
| "replace_zero (ObjCol xs) = ObjCol xs"

text \<open>
  Arithmetic on columns is elementwise. The input contract gives the measurement columns
  a numeric dtype; on a text column pandas applies the Python operator to the strings,
  which raises TypeError for \<open>/\<close>, \<open>*\<close> by a float and \<open>log1p\<close>. The embedding stops
  with TypeError whenever an operand is a text column and does not follow pandas further
  there (string concatenation under \<open>+\<close>, rows masked out because one side is missing).
\<close>

fun col_div :: "column \<Rightarrow> column \<Rightarrow> error + column" where
  "col_div (NumCol xs) (NumCol ys) = Inr (NumCol (map2 fdiv xs ys))"
| "col_div (NumCol xs) (ObjCol ys) = Inl TypeError"
| "col_div (ObjCol xs) c = Inl TypeError"

fun col_add :: "column \<Rightarrow> column \<Rightarrow> error + column" where
  "col_add (NumCol xs) (NumCol ys) = Inr (NumCol (map2 fadd xs ys))"
| "col_add (NumCol xs) (ObjCol ys) = Inl TypeError"
| "col_add (ObjCol xs) c = Inl TypeError"

fun col_mul :: "column \<Rightarrow> column \<Rightarrow> error + column" where
  "col_mul (NumCol xs) (NumCol ys) = Inr (NumCol (map2 fmul xs ys))"
| "col_mul (NumCol xs) (ObjCol ys) = Inl TypeError"
| "col_mul (ObjCol xs) c = Inl TypeError"

fun col_log1p :: "column \<Rightarrow> error + column" where
  "col_log1p (NumCol xs) = Inr (NumCol (map log1p xs))"
| "col_log1p (ObjCol xs) = Inl TypeError"

text \<open>\<open>df[name] = c\<close>: an existing column is replaced where it stands, a new one is
  appended.\<close>

definition set_col :: "dataframe \<Rightarrow> string \<Rightarrow> column \<Rightarrow> dataframe" where
  "set_col df name c = df\<lparr>columns := AList.update name c (columns df)\<rparr>"

definition assign :: "dataframe \<Rightarrow> string \<Rightarrow> error + column \<Rightarrow> error + dataframe" where
  "assign df name r = (case r of Inl e \<Rightarrow> Inl e | Inr c \<Rightarrow> Inr (set_col df name c))"

definition add_EC_OC_ratio :: "dataframe \<Rightarrow> error + dataframe" where
  "add_EC_OC_ratio df =
     (case (get_col df ''EC'', get_col df ''OC'') of
        (Some ec, Some oc) \<Rightarrow> assign df ''EC_OC_ratio'' (col_div ec (replace_zero oc))
      | _ \<Rightarrow> Inr df)"

definition add_Clay_Sand_ratio :: "dataframe \<Rightarrow> error + dataframe" where
  "add_Clay_Sand_ratio df =
     (case (get_col df ''Clay'', get_col df ''Sand'') of
        (Some clay, Some sand) \<Rightarrow> assign df ''Clay_Sand_ratio'' (col_div clay (replace_zero sand))
      | _ \<Rightarrow> Inr df)"

definition add_NPK_sum :: "dataframe \<Rightarrow> error + dataframe" where
  "add_NPK_sum df =
     (case (get_col df ''N'', get_col df ''P'', get_col df ''K'') of
        (Some n, Some p, Some k) \<Rightarrow>
          if 0 < notnull_sum n \<and> 0 < notnull_sum p \<and> 0 < notnull_sum k
          then assign df ''NPK_sum''
                 (case col_add n p of Inl e \<Rightarrow> Inl e | Inr np \<Rightarrow> col_add np k)
          else Inr df
      | _ \<Rightarrow> Inr df)"

definition add_log_CaCO3 :: "dataframe \<Rightarrow> error + dataframe" where
  "add_log_CaCO3 df =
     (case get_col df ''CaCO3'' of
        Some c \<Rightarrow> assign df ''log_CaCO3'' (col_log1p c)
      | None \<Rightarrow> Inr df)"

definition add_CN_ratio :: "dataframe \<Rightarrow> error + dataframe" where
  "add_CN_ratio df =
     (case (get_col df ''OC'', get_col df ''N'') of
        (Some oc, Some n) \<Rightarrow> assign df ''CN_ratio'' (col_div oc (replace_zero n))
      | _ \<Rightarrow> Inr df)"

definition add_Clay_OC_interaction :: "dataframe \<Rightarrow> error + dataframe" where
  "add_Clay_OC_interaction df =
     (case (get_col df ''Clay'', get_col df ''OC'') of
        (Some clay, Some oc) \<Rightarrow> assign df ''Clay_OC_interaction'' (col_mul clay oc)
      | _ \<Rightarrow> Inr df)"

text \<open>One statement after the other; an exception ends the run.\<close>

definition and_then :: "error + 'a \<Rightarrow> ('a \<Rightarrow> error + 'b) \<Rightarrow> error + 'b" where
  "and_then r f = (case r of Inl e \<Rightarrow> Inl e | Inr x \<Rightarrow> f x)"

definition feature_engineering :: "dataframe \<Rightarrow> error + dataframe" where
  "feature_engineering df =
     and_then (and_then (and_then (and_then (and_then (add_EC_OC_ratio df)
       add_Clay_Sand_ratio) add_NPK_sum) add_log_CaCO3) add_CN_ratio) add_Clay_OC_interaction"

subsection \<open>Target, feature matrix, split\<close>

text \<open>\<open>df.select_dtypes(include=[np.number]).columns\<close> without the target.\<close>

fun is_numeric :: "column \<Rightarrow> bool" where
  "is_numeric (NumCol xs) = True"
| "is_numeric (ObjCol xs) = False"

definition numeric_cols :: "dataframe \<Rightarrow> string list" where
  "numeric_cols df =
     filter (\<lambda>c. c \<noteq> target) (map fst (filter (\<lambda>(n, c). is_numeric c) (columns df)))"

text \<open>\<open>df[names]\<close>: the named columns in the order asked for; KeyError on an unknown name.\<close>

fun select_cols :: "dataframe \<Rightarrow> string list \<Rightarrow> error + (string \<times> column) list" where
  "select_cols df [] = Inr []"
| "select_cols df (n # ns) =
     (case get_col df n of
        None \<Rightarrow> Inl KeyError
      | Some c \<Rightarrow>
          (case select_cols df ns of Inl e \<Rightarrow> Inl e | Inr cs \<Rightarrow> Inr ((n, c) # cs)))"

record prepared =
  cat_cols :: "string list"
  num_cols :: "string list"
  X_df :: dataframe
  y_values :: column

text \<open>
  The cells of both notebooks from the load to \<open>X = df[numeric_cols + filtered_cat_cols]\<close>.
  The first \<open>numeric_cols\<close> is only printed and is overwritten before its next use, so it
  is left out.
\<close>

definition prepare :: "dataframe \<Rightarrow> error + prepared" where
  "prepare df =
     (let fcc = filtered_cat_cols df in
      case dropna target df of
        Inl e \<Rightarrow> Inl e
      | Inr df1 \<Rightarrow>
          (case feature_engineering df1 of
             Inl e \<Rightarrow> Inl e
           | Inr df2 \<Rightarrow>
               (case get_col df2 target of
                  None \<Rightarrow> Inl KeyError
                | Some yv \<Rightarrow>
                    (let nc = numeric_cols df2 in
                     case select_cols df2 (nc @ fcc) of
                       Inl e \<Rightarrow> Inl e
                     | Inr cs \<Rightarrow>
                         Inr \<lparr>cat_cols = fcc, num_cols = nc,
                              X_df = \<lparr>index = index df2, columns = cs\<rparr>, y_values = yv\<rparr>))))"

text \<open>
  \<open>train_test_split\<close> shuffles with a seeded generator of the library; the row positions
  it picks for the two parts are a parameter here. Rows are taken by position.
\<close>

definition rows_at :: "nat list \<Rightarrow> 'a list \<Rightarrow> 'a list" where
  "rows_at ps xs = map (\<lambda>p. xs ! p) ps"

fun col_rows_at :: "nat list \<Rightarrow> column \<Rightarrow> column" where
  "col_rows_at ps (NumCol xs) = NumCol (rows_at ps xs)"
| "col_rows_at ps (ObjCol xs) = ObjCol (rows_at ps xs)"

definition take_rows :: "nat list \<Rightarrow> dataframe \<Rightarrow> dataframe" where
  "take_rows ps df =
     \<lparr>index = rows_at ps (index df),
      columns = map (\<lambda>(n, c). (n, col_rows_at ps c)) (columns df)\<rparr>"

record split =
  X_train :: dataframe
  X_test :: dataframe
  y_train :: column
  y_test :: column

definition train_test_split ::
  "nat list \<Rightarrow> nat list \<Rightarrow> dataframe \<Rightarrow> column \<Rightarrow> error + split" where
  "train_test_split train_pos test_pos x yv =
     (if col_len yv \<noteq> len x then Inl ValueError
      else if \<not> list_all (\<lambda>p. p < len x) (train_pos @ test_pos) then Inl IndexError
      else Inr \<lparr>X_train = take_rows train_pos x, X_test = take_rows test_pos x,
                y_train = col_rows_at train_pos yv, y_test = col_rows_at test_pos yv\<rparr>)"

subsection \<open>Names and the input contract\<close>

text \<open>The names of the engineered columns and of the columns they are computed from.\<close>

definition engineered_names :: "string list" where
  "engineered_names =
     [''EC_OC_ratio'', ''Clay_Sand_ratio'', ''NPK_sum'', ''log_CaCO3'', ''CN_ratio'',
      ''Clay_OC_interaction'']"

text \<open>The engineered columns with the columns each is computed from; the ratio features
  with numerator and denominator.\<close>

definition feature_sources :: "(string \<times> string list) list" where
  "feature_sources =
     [(''EC_OC_ratio'', [''EC'', ''OC'']), (''Clay_Sand_ratio'', [''Clay'', ''Sand'']),
      (''NPK_sum'', [''N'', ''P'', ''K'']), (''log_CaCO3'', [''CaCO3'']),
      (''CN_ratio'', [''OC'', ''N'']), (''Clay_OC_interaction'', [''Clay'', ''OC''])]"


text \<open>The condition under which a feature is computed: its source columns are columns of
  the table and, for \<open>NPK_sum\<close>, each of them has an entry that is present.\<close>

definition sources_ready :: "dataframe \<Rightarrow> string \<Rightarrow> string list \<Rightarrow> bool" where
  "sources_ready df f srcs \<longleftrightarrow>
     list_all (\<lambda>c. c \<in> set (col_names df)) srcs \<and>
     (f = ''NPK_sum'' \<longrightarrow>
        list_all (\<lambda>c. case get_col df c of None \<Rightarrow> False | Some col \<Rightarrow> 0 < notnull_sum col) srcs)"


text \<open>The input contract: a measurement column that is present has a numeric dtype.\<close>

definition source_names :: "string list" where
  "source_names = [''EC'', ''OC'', ''Clay'', ''Sand'', ''N'', ''P'', ''K'', ''CaCO3'']"

definition numeric_sources :: "dataframe \<Rightarrow> bool" where
  "numeric_sources df =
     list_all (\<lambda>c. case get_col df c of None \<Rightarrow> True | Some col \<Rightarrow> is_numeric col) source_names"

section \<open>The model builders\<close>

text \<open>
  A network is recorded as the list of layers the builder hands to \<open>Sequential.add\<close>,
  each with the arguments the source passes (an argument the source leaves out is None: the
  library's default), and the arguments of \<open>compile\<close>.
\<close>

datatype regularizer = L2 real

datatype layer =
    Input int
  | Reshape "int list" "int list"
  | Conv1D int int string string
  | Dense int "string option" "regularizer option" "string option"
  | BatchNormalization
  | Dropout real
  | GlobalAveragePooling1D

datatype optimizer = Adam real

record model =
  layers :: "layer list"
  optimizer :: optimizer
  loss :: string
  metrics :: "string list"

text \<open>
  The layer constructors and the optimizer's constructor are the library's. They check
  their arguments and raise ValueError on those they do not accept (a number of units
  that is not positive, a dropout rate that is no probability, an unknown activation
  name, and so on). Which arguments the installed version accepts is not code of the
  notebooks and is a parameter here.
\<close>

record library =
  accepts_layer :: "layer \<Rightarrow> bool"
  accepts_optimizer :: "optimizer \<Rightarrow> bool"

text \<open>\<open>model.add(layer)\<close>, with the construction of the layer: ValueError when the
  library does not accept it, otherwise the layer is appended.\<close>

definition model_add :: "library \<Rightarrow> layer \<Rightarrow> layer list \<Rightarrow> error + layer list" where
  "model_add lib l added = (if accepts_layer lib l then Inr (added @ [l]) else Inl ValueError)"

text \<open>
  The loop \<open>for i, neurons in enumerate(neurons_layers)\<close>, adding to the layers so far:
  \<open>Dense(neurons, activation, kernel_regularizer=l2(l2_reg), kernel_initializer="he_normal")\<close>,
  \<open>BatchNormalization()\<close>, \<open>Dropout(dropout_rates[i])\<close>, in this order. The index raises
  IndexError when the dropout rates run out.
\<close>

fun hidden_layers ::
  "library \<Rightarrow> nat \<Rightarrow> int list \<Rightarrow> real list \<Rightarrow> string \<Rightarrow> real \<Rightarrow> layer list \<Rightarrow>
     error + layer list" where
  "hidden_layers lib i [] dropout_rates activation l2_reg added = Inr added"
| "hidden_layers lib i (neurons # rest) dropout_rates activation l2_reg added =
     (case model_add lib
             (Dense neurons (Some activation) (Some (L2 l2_reg)) (Some ''he_normal'')) added of
        Inl e \<Rightarrow> Inl e
      | Inr with_dense \<Rightarrow>
          (case model_add lib BatchNormalization with_dense of
             Inl e \<Rightarrow> Inl e
           | Inr with_norm \<Rightarrow>
               if i < length dropout_rates
               then (case model_add lib (Dropout (dropout_rates ! i)) with_norm of
                       Inl e \<Rightarrow> Inl e
                     | Inr with_dropout \<Rightarrow>
                         hidden_layers lib (Suc i) rest dropout_rates activation l2_reg
                           with_dropout)
               else Inl IndexError))"

text \<open>\<open>compile(optimizer=Adam(learning_rate=learning_rate), loss="mse", metrics=["mae"])\<close>
  on the layers added: ValueError when the library does not accept the optimizer.\<close>

definition compile ::
  "library \<Rightarrow> optimizer \<Rightarrow> string \<Rightarrow> string list \<Rightarrow> layer list \<Rightarrow> error + model" where
  "compile lib opt loss_name metric_names added =
     (if accepts_optimizer lib opt
      then Inr \<lparr>layers = added, optimizer = opt, loss = loss_name, metrics = metric_names\<rparr>
      else Inl ValueError)"

definition create_model ::
  "library \<Rightarrow> int \<Rightarrow> int list \<Rightarrow> real list \<Rightarrow> string \<Rightarrow> real \<Rightarrow> real \<Rightarrow> error + model" where
  "create_model lib input_dim neurons_layers dropout_rates activation learning_rate l2_reg =
     and_then (model_add lib (Input input_dim) []) (\<lambda>added.
     and_then (hidden_layers lib 0 neurons_layers dropout_rates activation l2_reg added) (\<lambda>added.
     and_then (model_add lib (Dense 1 None None None) added) (\<lambda>added.
     compile lib (Adam learning_rate) ''mse'' [''mae''] added)))"

text \<open>The convolutional builder: \<open>Reshape((input_dim, 1), input_shape=(input_dim,))\<close>,
  \<open>Conv1D(filters, kernel_size, padding, activation)\<close> twice, each with a batch
  normalisation, the pooling, then the loop, the output layer and \<open>compile\<close> of the dense
  builder.\<close>

definition create_cnn_model ::
  "library \<Rightarrow> int \<Rightarrow> int list \<Rightarrow> real list \<Rightarrow> string \<Rightarrow> real \<Rightarrow> real \<Rightarrow> int \<Rightarrow> int \<Rightarrow>
     error + model" where
  "create_cnn_model lib input_dim neurons_layers dropout_rates activation learning_rate l2_reg
       cnn_filters kernel_size =
     and_then (model_add lib (Reshape [input_dim, 1] [input_dim]) []) (\<lambda>added.
     and_then (model_add lib (Conv1D cnn_filters kernel_size ''same'' activation) added) (\<lambda>added.
     and_then (model_add lib BatchNormalization added) (\<lambda>added.
     and_then (model_add lib (Conv1D (cnn_filters * 2) kernel_size ''same'' activation) added)
       (\<lambda>added.
     and_then (model_add lib BatchNormalization added) (\<lambda>added.
     and_then (model_add lib GlobalAveragePooling1D added) (\<lambda>added.
     and_then (hidden_layers lib 0 neurons_layers dropout_rates activation l2_reg added) (\<lambda>added.
     and_then (model_add lib (Dense 1 None None None) added) (\<lambda>added.
     compile lib (Adam learning_rate) ''mse'' [''mae''] added))))))))"

text \<open>The block of one hidden layer, and the stack of blocks for a list of widths with
  their dropout rates.\<close>

definition dense_block :: "string \<Rightarrow> real \<Rightarrow> int \<times> real \<Rightarrow> layer list" where
  "dense_block activation l2_reg = (\<lambda>(neurons, rate).
     [Dense neurons (Some activation) (Some (L2 l2_reg)) (Some ''he_normal''),
      BatchNormalization, Dropout rate])"

definition dense_stack :: "int list \<Rightarrow> real list \<Rightarrow> string \<Rightarrow> real \<Rightarrow> layer list" where
  "dense_stack neurons_layers dropout_rates activation l2_reg =
     concat (map (dense_block activation l2_reg) (zip neurons_layers dropout_rates))"

text \<open>The spec's "variance-scaling scheme matched to the activation", read as the pairing
  the library documents: LeCun-normal initialisation for \<open>selu\<close>, He initialisation for
  the rectifier family.\<close>

definition spec_matched_initializer :: "string \<Rightarrow> string" where
  "spec_matched_initializer activation =
     (if activation = ''selu'' then ''lecun_normal'' else ''he_normal'')"

section \<open>The hyperparameter search\<close>

text \<open>The decimal digits of a number, as an f-string prints them.\<close>

fun string_of_nat :: "nat \<Rightarrow> string" where
  "string_of_nat n =
     (if n < 10 then [''0123456789'' ! n]
      else string_of_nat (n div 10) @ [''0123456789'' ! (n mod 10)])"

declare string_of_nat.simps [simp del]

text \<open>
  The trial object the search library hands to the objective: its \<open>suggest_int(name, low,
  high)\<close>, \<open>suggest_float(name, low, high, log)\<close> and \<open>suggest_categorical(name,
  choices)\<close> (once for text choices, once for integer choices). What a call returns is
  the library's choice and a parameter here.
\<close>

record trial =
  suggest_int :: "string \<Rightarrow> int \<Rightarrow> int \<Rightarrow> int"
  suggest_float :: "string \<Rightarrow> real \<Rightarrow> real \<Rightarrow> bool \<Rightarrow> real"
  suggest_categorical_str :: "string \<Rightarrow> string list \<Rightarrow> string"
  suggest_categorical_int :: "string \<Rightarrow> int list \<Rightarrow> int"

text \<open>The configuration the objective builds from the suggestions.\<close>

record hyperparameters =
  p_n_layers :: int
  p_neurons_layers :: "int list"
  p_dropout_rates :: "real list"
  p_activation :: string
  p_learning_rate :: real
  p_l2_reg :: real
  p_batch_size :: int

text \<open>The loop \<open>for i in range(n_layers)\<close>, appending a width and a dropout rate per
  layer.\<close>

fun suggest_layers :: "trial \<Rightarrow> nat list \<Rightarrow> int list \<Rightarrow> real list \<Rightarrow> int list \<times> real list" where
  "suggest_layers t [] neurons_layers dropout_rates = (neurons_layers, dropout_rates)"
| "suggest_layers t (i # rest) neurons_layers dropout_rates =
     suggest_layers t rest
       (neurons_layers @ [suggest_int t (''n_units_l'' @ string_of_nat i) 16 512])
       (dropout_rates @ [suggest_float t (''dropout_l'' @ string_of_nat i) (1 / 10) (1 / 2) False])"

definition suggest_hyperparameters :: "trial \<Rightarrow> hyperparameters" where
  "suggest_hyperparameters t =
     (let n_layers = suggest_int t ''n_layers'' 1 5;
          (neurons_layers, dropout_rates) = suggest_layers t [0..<nat n_layers] [] []
      in \<lparr>p_n_layers = n_layers,
          p_neurons_layers = neurons_layers,
          p_dropout_rates = dropout_rates,
          p_activation = suggest_categorical_str t ''activation'' [''relu'', ''elu'', ''selu''],
          p_learning_rate = suggest_float t ''learning_rate'' (1 / 100000) (1 / 100) True,
          p_l2_reg = suggest_float t ''l2_reg'' (1 / 1000000) (1 / 1000) True,
          p_batch_size = suggest_categorical_int t ''batch_size'' [16, 32, 64, 128]\<rparr>)"

text \<open>
  Python's \<open>min\<close> of a list of floats: ValueError on the empty list; otherwise the first
  entry, replaced by each later entry that compares less than the minimum so far. A
  comparison with NaN is false, so a NaN at the head is returned and a NaN further on is
  passed over.
\<close>

fun py_min :: "number list \<Rightarrow> error + number" where
  "py_min [] = Inl ValueError"
| "py_min (x # xs) = Inr (fold (\<lambda>v m. if fless v m then v else m) xs x)"

text \<open>
  The objective. \<open>fit m batch_size\<close> stands for the list \<open>history.history["val_mae"]\<close>
  of the training run \<open>model.fit(..., epochs=100, batch_size=batch_size, callbacks=...)\<close>
  on the model \<open>m\<close>: the training itself is the library's, and its entries may be NaN or
  infinite. The result is the configuration with the value the objective returns.
\<close>

definition objective ::
  "library \<Rightarrow> int \<Rightarrow> (model \<Rightarrow> int \<Rightarrow> number list) \<Rightarrow> trial \<Rightarrow>
     error + hyperparameters \<times> number" where
  "objective lib input_dim fit t =
     (let hp = suggest_hyperparameters t in
      case create_model lib input_dim (p_neurons_layers hp) (p_dropout_rates hp)
             (p_activation hp) (p_learning_rate hp) (p_l2_reg hp) of
        Inl e \<Rightarrow> Inl e
      | Inr m \<Rightarrow>
          (case py_min (fit m (p_batch_size hp)) of
             Inl e \<Rightarrow> Inl e
           | Inr val_mae \<Rightarrow> Inr (hp, val_mae)))"

text \<open>A trial as the study records it: its number, its configuration and its score. A
  trial that failed has no score.\<close>

record frozen_trial =
  t_number :: nat
  t_params :: hyperparameters
  t_value :: "number option"

text \<open>
  Modelled from the spec: the study of the search library (\<open>create_study(direction=
  "minimize")\<close>, \<open>study.optimize(objective, n_trials)\<close>, \<open>study.best_trial\<close>), which is
  not code of the notebooks. For each trial of the budget the library makes a trial
  object, which may depend on the trials so far, calls the objective on it and records the
  configuration with its score; a trial whose objective returns NaN is recorded as failed,
  with no score, and the search goes on; an exception of the objective ends the search.
  \<open>obj k\<close> is the objective at its call for trial \<open>k\<close>: a training run is random, so two
  calls need not agree.
\<close>

fun optimize ::
  "(frozen_trial list \<Rightarrow> trial) \<Rightarrow> (nat \<Rightarrow> trial \<Rightarrow> error + hyperparameters \<times> number) \<Rightarrow>
     nat \<Rightarrow> frozen_trial list \<Rightarrow> error + frozen_trial list" where
  "optimize sampler obj 0 trials = Inr trials"
| "optimize sampler obj (Suc n) trials =
     (case obj (length trials) (sampler trials) of
        Inl e \<Rightarrow> Inl e
      | Inr (hp, v) \<Rightarrow>
          optimize sampler obj n
            (trials @ [\<lparr>t_number = length trials, t_params = hp,
                        t_value = (if v = NaN then None else Some v)\<rparr>]))"

text \<open>The score of a trial as a number: NaN when it has none.\<close>

definition score :: "frozen_trial \<Rightarrow> number" where
  "score t = (case t_value t of None \<Rightarrow> NaN | Some v \<Rightarrow> v)"

text \<open>Modelled from the spec: \<open>study.best_trial\<close> of the search library, the first of the
  trials with a score whose score is the minimum; ValueError when no trial has a score.\<close>

definition best_trial :: "frozen_trial list \<Rightarrow> error + frozen_trial" where
  "best_trial trials =
     (case filter (\<lambda>t. t_value t \<noteq> None) trials of
        [] \<Rightarrow> Inl ValueError
      | t # ts \<Rightarrow> Inr (fold (\<lambda>t b. if fless (score t) (score b) then t else b) ts t))"

text \<open>\<open>study.optimize(objective, n_trials=50)\<close>, then \<open>study.best_trial\<close>. \<open>fits k\<close> is the
  training run of trial \<open>k\<close>.\<close>

definition run_search ::
  "library \<Rightarrow> int \<Rightarrow> (nat \<Rightarrow> model \<Rightarrow> int \<Rightarrow> number list) \<Rightarrow> (frozen_trial list \<Rightarrow> trial) \<Rightarrow>
     error + frozen_trial list \<times> frozen_trial" where
  "run_search lib input_dim fits sampler =
     (case optimize sampler (\<lambda>k. objective lib input_dim (fits k)) 50 [] of
        Inl e \<Rightarrow> Inl e
      | Inr trials \<Rightarrow>
          (case best_trial trials of Inl e \<Rightarrow> Inl e | Inr best \<Rightarrow> Inr (trials, best)))"

text \<open>The contract of the library's trial object: a suggestion lies in the range, or among
  the choices, it was asked for.\<close>

definition valid_trial :: "trial \<Rightarrow> bool" where
  "valid_trial t \<longleftrightarrow>
     (\<forall>name low high. low \<le> high \<longrightarrow>
        low \<le> suggest_int t name low high \<and> suggest_int t name low high \<le> high) \<and>
     (\<forall>name low high lg. low \<le> high \<longrightarrow>
        low \<le> suggest_float t name low high lg \<and> suggest_float t name low high lg \<le> high) \<and>
     (\<forall>name choices. choices \<noteq> [] \<longrightarrow> suggest_categorical_str t name choices \<in> set choices) \<and>
     (\<forall>name choices. choices \<noteq> [] \<longrightarrow> suggest_categorical_int t name choices \<in> set choices)"

text \<open>The declared ranges of a configuration.\<close>

definition in_declared_ranges :: "hyperparameters \<Rightarrow> bool" where
  "in_declared_ranges hp \<longleftrightarrow>
     1 \<le> p_n_layers hp \<and> p_n_layers hp \<le> 5 \<and>
     length (p_neurons_layers hp) = nat (p_n_layers hp) \<and>
     length (p_dropout_rates hp) = nat (p_n_layers hp) \<and>
     list_all (\<lambda>u. 16 \<le> u \<and> u \<le> 512) (p_neurons_layers hp) \<and>
     list_all (\<lambda>r. 1 / 10 \<le> r \<and> r \<le> 1 / 2) (p_dropout_rates hp) \<and>
     p_activation hp \<in> {''relu'', ''elu'', ''selu''} \<and>
     1 / 100000 \<le> p_learning_rate hp \<and> p_learning_rate hp \<le> 1 / 100 \<and>
     1 / 1000000 \<le> p_l2_reg hp \<and> p_l2_reg hp \<le> 1 / 1000 \<and>
     p_batch_size hp \<in> {16, 32, 64, 128}"

text \<open>The library accepts the layers and the optimiser of every configuration in the
  declared ranges, on inputs of the given size.\<close>

definition accepts_declared :: "library \<Rightarrow> int \<Rightarrow> bool" where
  "accepts_declared lib input_dim \<longleftrightarrow>
     accepts_layer lib (Input input_dim) \<and>
     (\<forall>neurons activation l2_reg.
        16 \<le> neurons \<and> neurons \<le> 512 \<and> activation \<in> {''relu'', ''elu'', ''selu''} \<and>
        1 / 1000000 \<le> l2_reg \<and> l2_reg \<le> 1 / 1000 \<longrightarrow>
        accepts_layer lib
          (Dense neurons (Some activation) (Some (L2 l2_reg)) (Some ''he_normal''))) \<and>
     accepts_layer lib BatchNormalization \<and>
     (\<forall>rate. 1 / 10 \<le> rate \<and> rate \<le> 1 / 2 \<longrightarrow> accepts_layer lib (Dropout rate)) \<and>
     accepts_layer lib (Dense 1 None None None) \<and>
     (\<forall>learning_rate. 1 / 100000 \<le> learning_rate \<and> learning_rate \<le> 1 / 100 \<longrightarrow>
        accepts_optimizer lib (Adam learning_rate))"

section \<open>The fitted preprocessor\<close>

text \<open>An entry of a column, whatever its dtype.\<close>

datatype cell = NumCell number | ObjCell "string option"

fun cells :: "column \<Rightarrow> cell list" where
  "cells (NumCol xs) = map NumCell xs"
| "cells (ObjCol xs) = map ObjCell xs"

text \<open>
  Modelled from the spec: the preprocessing library's one-hot encoder
  (\<open>OneHotEncoder(handle_unknown="ignore", sparse_output=False)\<close>), which is not code
  of the notebooks; they only configure it, fit it on the training part and apply it to
  both parts. The one-hot vocabulary of a categorical column is the list of its distinct
  levels in the training part (the library sorts them; the order plays no role here). A
  level of the vocabulary is encoded as its indicator vector. For a level that is not in
  the vocabulary the encoder has two policies: raise an error, or ignore it and give the
  all-zero vector.
\<close>

datatype handle_unknown = Raise | Ignore

text \<open>Modelled from the spec: the encoder on one entry.\<close>

definition encode_cell :: "handle_unknown \<Rightarrow> cell list \<Rightarrow> cell \<Rightarrow> error + number list" where
  "encode_cell policy vocabulary c =
     (if c \<in> set vocabulary then Inr (map (\<lambda>v. if v = c then Fin 1 else Fin 0) vocabulary)
      else (case policy of
              Ignore \<Rightarrow> Inr (replicate (length vocabulary) (Fin 0))
            | Raise \<Rightarrow> Inl ValueError))"

text \<open>Modelled from the spec: the encoder on a row of categorical entries, one per
  vocabulary; a row with another number of entries is refused.\<close>

fun encode_row :: "handle_unknown \<Rightarrow> cell list list \<Rightarrow> cell list \<Rightarrow> error + number list" where
  "encode_row policy [] [] = Inr []"
| "encode_row policy (v # vs) (c # cs) =
     (case encode_cell policy v c of
        Inl e \<Rightarrow> Inl e
      | Inr block \<Rightarrow>
          (case encode_row policy vs cs of Inl e \<Rightarrow> Inl e | Inr blocks \<Rightarrow> Inr (block @ blocks)))"
| "encode_row policy [] (c # cs) = Inl ValueError"
| "encode_row policy (v # vs) [] = Inl ValueError"

text \<open>
  Modelled from the spec: the library's numeric pipeline (\<open>KNNImputer\<close>,
  \<open>PowerTransformer\<close>, \<open>StandardScaler\<close>) after the fit: imputation of the missing
  entries of a row, then the power transform and the scaling of each column, with the
  parameters frozen at fit time. The fitted functions are parameters: the imputed value
  for a column of a row, and the two maps of every column. Text among the numeric entries
  is refused.
\<close>

record numeric_transform =
  n_features :: nat
  knn_imputer :: "number list \<Rightarrow> nat \<Rightarrow> number"
  power_transformer :: "nat \<Rightarrow> number \<Rightarrow> number"
  standard_scaler :: "nat \<Rightarrow> number \<Rightarrow> number"

text \<open>Modelled from the spec: the numeric pipeline on the numeric entries of one row; a row
  with another number of entries than at fit time is refused.\<close>

fun numbers_of :: "cell list \<Rightarrow> error + number list" where
  "numbers_of [] = Inr []"
| "numbers_of (NumCell x # cs) =
     (case numbers_of cs of Inl e \<Rightarrow> Inl e | Inr xs \<Rightarrow> Inr (x # xs))"
| "numbers_of (ObjCell s # cs) = Inl ValueError"

definition transform_numeric :: "numeric_transform \<Rightarrow> cell list \<Rightarrow> error + number list" where
  "transform_numeric f cs =
     (case numbers_of cs of
        Inl e \<Rightarrow> Inl e
      | Inr xs \<Rightarrow>
          if length xs \<noteq> n_features f then Inl ValueError
          else Inr (map (\<lambda>j. standard_scaler f j (power_transformer f j
                              (if xs ! j = NaN then knn_imputer f xs j else xs ! j)))
                     [0..<n_features f]))"

text \<open>Modelled from the spec: the fitted column transformer, the fitted numeric pipeline
  with the one-hot vocabularies and the policy for unknown levels.\<close>

record preprocessor =
  num_part :: numeric_transform
  categories :: "cell list list"
  unknown_policy :: handle_unknown

text \<open>Modelled from the spec: the fit of the library's \<open>ColumnTransformer\<close>; the
  vocabularies are taken from the categorical columns of the training part.\<close>

definition fit_preprocessor ::
  "numeric_transform \<Rightarrow> handle_unknown \<Rightarrow> string list \<Rightarrow> dataframe \<Rightarrow> error + preprocessor" where
  "fit_preprocessor f policy cat_names x_train =
     (case select_cols x_train cat_names of
        Inl e \<Rightarrow> Inl e
      | Inr cs \<Rightarrow>
          Inr \<lparr>num_part = f, categories = map (\<lambda>(n, c). remdups (cells c)) cs,
               unknown_policy = policy\<rparr>)"

text \<open>Modelled from the spec: the column transformer on one row: the transformed numeric
  entries, then the one-hot blocks.\<close>

definition transform_row :: "preprocessor \<Rightarrow> cell list \<Rightarrow> cell list \<Rightarrow> error + number list" where
  "transform_row p nums cats =
     (case transform_numeric (num_part p) nums of
        Inl e \<Rightarrow> Inl e
      | Inr a \<Rightarrow>
          (case encode_row (unknown_policy p) (categories p) cats of
             Inl e \<Rightarrow> Inl e
           | Inr b \<Rightarrow> Inr (a @ b)))"

text \<open>Modelled from the spec: the column transformer on a table: row by row, over the
  numeric and the categorical columns by name.\<close>

fun collect :: "(error + 'a) list \<Rightarrow> error + 'a list" where
  "collect [] = Inr []"
| "collect (r # rs) =
     (case r of
        Inl e \<Rightarrow> Inl e
      | Inr x \<Rightarrow> (case collect rs of Inl e \<Rightarrow> Inl e | Inr xs \<Rightarrow> Inr (x # xs)))"

definition row_cells :: "(string \<times> column) list \<Rightarrow> nat \<Rightarrow> cell list" where
  "row_cells cs i = map (\<lambda>(n, c). cells c ! i) cs"

definition transform ::
  "preprocessor \<Rightarrow> string list \<Rightarrow> string list \<Rightarrow> dataframe \<Rightarrow> error + number list list" where
  "transform p num_names cat_names x =
     (case select_cols x num_names of
        Inl e \<Rightarrow> Inl e
      | Inr ncs \<Rightarrow>
          (case select_cols x cat_names of
             Inl e \<Rightarrow> Inl e
           | Inr ccs \<Rightarrow>
               collect (map (\<lambda>i. transform_row p (row_cells ncs i) (row_cells ccs i))
                          [0..<len x])))"

text \<open>The preprocessor of the notebooks: unknown levels are ignored.\<close>

definition fit_notebook_preprocessor ::
  "numeric_transform \<Rightarrow> string list \<Rightarrow> dataframe \<Rightarrow> error + preprocessor" where
  "fit_notebook_preprocessor f cat_names x_train = fit_preprocessor f Ignore cat_names x_train"

text \<open>Modelled from the spec: the number of output columns of a fitted preprocessor, the
  numeric columns and one column per level of each vocabulary.\<close>

definition n_features_out :: "preprocessor \<Rightarrow> nat" where
  "n_features_out p = n_features (num_part p) + sum_list (map length (categories p))"

section \<open>Example data\<close>

text \<open>A table at the boundaries of the categorical filter: 30 rows; \<open>LC\<close> has 30 distinct
  values and \<open>LU\<close> 29; \<open>USDA\<close> misses 9 entries of 30 and \<open>ISSS\<close> 8. And a table whose
  second row has no target.\<close>

definition boundary_df :: dataframe where
  "boundary_df =
     \<lparr>index =
         [0, 1, 2, 3, 4, 5, 6, 7, 8, 9, 10, 11, 12, 13, 14, 15, 16, 17, 18, 19, 20, 21, 22,
          23, 24, 25, 26, 27, 28, 29],
      columns =
       [(''pH_H2O'', NumCol
         [Fin 7, Fin 7, Fin 7, Fin 7, Fin 7, Fin 7, Fin 7, Fin 7, Fin 7, Fin 7, Fin 7, Fin 7,
          Fin 7, Fin 7, Fin 7, Fin 7, Fin 7, Fin 7, Fin 7, Fin 7, Fin 7, Fin 7, Fin 7, Fin 7,
          Fin 7, Fin 7, Fin 7, Fin 7, Fin 7, Fin 7]),
        (''LC'', ObjCol
         [Some ''aa'', Some ''ab'', Some ''ac'', Some ''ad'', Some ''ae'', Some ''af'',
          Some ''ag'', Some ''ah'', Some ''ai'', Some ''aj'', Some ''ak'', Some ''al'',
          Some ''am'', Some ''an'', Some ''ao'', Some ''ap'', Some ''aq'', Some ''ar'',
          Some ''as'', Some ''at'', Some ''au'', Some ''av'', Some ''aw'', Some ''ax'',
          Some ''ay'', Some ''az'', Some ''ba'', Some ''bb'', Some ''bc'', Some ''bd'']),
        (''LU'', ObjCol
         [Some ''aa'', Some ''ab'', Some ''ac'', Some ''ad'', Some ''ae'', Some ''af'',
          Some ''ag'', Some ''ah'', Some ''ai'', Some ''aj'', Some ''ak'', Some ''al'',
          Some ''am'', Some ''an'', Some ''ao'', Some ''ap'', Some ''aq'', Some ''ar'',
          Some ''as'', Some ''at'', Some ''au'', Some ''av'', Some ''aw'', Some ''ax'',
          Some ''ay'', Some ''az'', Some ''ba'', Some ''bb'', Some ''bc'', Some ''aa'']),
        (''USDA'', ObjCol
         [None, None, None, None, None, None, None, None, None, Some ''x'', Some ''x'',
          Some ''x'', Some ''x'', Some ''x'', Some ''x'', Some ''x'', Some ''x'', Some ''x'',
          Some ''x'', Some ''x'', Some ''x'', Some ''x'', Some ''x'', Some ''x'', Some ''x'',
          Some ''x'', Some ''x'', Some ''x'', Some ''x'', Some ''x'']),
        (''ISSS'', ObjCol
         [None, None, None, None, None, None, None, None, Some ''x'', Some ''x'', Some ''x'',
          Some ''x'', Some ''x'', Some ''x'', Some ''x'', Some ''x'', Some ''x'', Some ''x'',
          Some ''x'', Some ''x'', Some ''x'', Some ''x'', Some ''x'', Some ''x'', Some ''x'',
          Some ''x'', Some ''x'', Some ''x'', Some ''x'', Some ''x''])]\<rparr>"

definition stale_df :: dataframe where
  "stale_df =
     \<lparr>index = [0, 1],
      columns = [(''pH_H2O'', NumCol [Fin 7, NaN]), (''LC'', ObjCol [Some ''A'', None])]\<rparr>"

text \<open>What the pipeline makes of the table whose second row has no target, and that table
  without the row.\<close>

definition stale_prepared :: prepared where
  "stale_prepared =
     \<lparr>cat_cols = [], num_cols = [],
      X_df = \<lparr>index = [0], columns = []\<rparr>,
      y_values = NumCol [Fin 7]\<rparr>"

definition stale_dropped :: dataframe where
  "stale_dropped =
     \<lparr>index = [0], columns = [(''pH_H2O'', NumCol [Fin 7]), (''LC'', ObjCol [Some ''A''])]\<rparr>"

text \<open>A table with a missing target, zero denominators and a missing numerator, and what
  the pipeline makes of it.\<close>

definition sample_df :: dataframe where
  "sample_df =
     \<lparr>index = [0, 1, 2, 3],
      columns =
       [(''pH_H2O'', NumCol [Fin 7, NaN, Fin 6, Fin 5]),
        (''EC'', NumCol [Fin 2, Fin 1, NaN, Fin 3]),
        (''OC'', NumCol [Fin 0, Fin 1, Fin 0, Fin 4]),
        (''N'', NumCol [Fin 0, Fin 1, Fin 2, Fin 0]),
        (''LC'', ObjCol [Some ''A'', None, Some ''B'', Some ''A''])]\<rparr>"

definition sample_prepared :: prepared where
  "sample_prepared =
     \<lparr>cat_cols = [''LC''],
      num_cols = [''EC'', ''OC'', ''N'', ''EC_OC_ratio'', ''CN_ratio''],
      X_df =
        \<lparr>index = [0, 2, 3],
         columns =
          [(''EC'', NumCol [Fin 2, NaN, Fin 3]),
           (''OC'', NumCol [Fin 0, Fin 0, Fin 4]),
           (''N'', NumCol [Fin 0, Fin 2, Fin 0]),
           (''EC_OC_ratio'', NumCol [Fin 2000, NaN, Fin (3 / 4)]),
           (''CN_ratio'', NumCol [Fin 0, Fin 0, Fin 4000]),
           (''LC'', ObjCol [Some ''A'', Some ''B'', Some ''A''])]\<rparr>,
      y_values = NumCol [Fin 7, Fin 6, Fin 5]\<rparr>"

text \<open>What feature engineering makes of the sample table; and a one-row table with a zero
  denominator and a numerator of \<open>1e306\<close>.\<close>

definition sample_engineered :: dataframe where
  "sample_engineered =
     \<lparr>index = [0, 1, 2, 3],
      columns =
       [(''pH_H2O'', NumCol [Fin 7, NaN, Fin 6, Fin 5]),
        (''EC'', NumCol [Fin 2, Fin 1, NaN, Fin 3]),
        (''OC'', NumCol [Fin 0, Fin 1, Fin 0, Fin 4]),
        (''N'', NumCol [Fin 0, Fin 1, Fin 2, Fin 0]),
        (''LC'', ObjCol [Some ''A'', None, Some ''B'', Some ''A'']),
        (''EC_OC_ratio'', NumCol [Fin 2000, Fin 1, NaN, Fin (3 / 4)]),
        (''CN_ratio'', NumCol [Fin 0, Fin 1, Fin 0, Fin 4000])]\<rparr>"




text \<open>The sample data split into rows 0 and 2 for training and row 1 for the test, whose
  level \<open>B\<close> of \<open>LC\<close> is not among the training levels; and a numeric transform that
  imputes zero and leaves the entries as they are.\<close>

definition sample_train :: dataframe where
  "sample_train =
     \<lparr>index = [0, 3],
      columns =
       [(''EC'', NumCol [Fin 2, Fin 3]),
        (''OC'', NumCol [Fin 0, Fin 4]),
        (''N'', NumCol [Fin 0, Fin 0]),
        (''EC_OC_ratio'', NumCol [Fin 2000, Fin (3 / 4)]),
        (''CN_ratio'', NumCol [Fin 0, Fin 4000]),
        (''LC'', ObjCol [Some ''A'', Some ''A''])]\<rparr>"

definition sample_test :: dataframe where
  "sample_test =
     \<lparr>index = [2],
      columns =
       [(''EC'', NumCol [NaN]),
        (''OC'', NumCol [Fin 0]),
        (''N'', NumCol [Fin 2]),
        (''EC_OC_ratio'', NumCol [NaN]),
        (''CN_ratio'', NumCol [Fin 0]),
        (''LC'', ObjCol [Some ''B''])]\<rparr>"

definition plain_numeric :: numeric_transform where
  "plain_numeric =
     \<lparr>n_features = 5, knn_imputer = (\<lambda>xs j. Fin 0), power_transformer = (\<lambda>j x. x),
      standard_scaler = (\<lambda>j x. x)\<rparr>"

definition sample_preprocessor :: preprocessor where
  "sample_preprocessor =
     \<lparr>num_part = plain_numeric, categories = [[ObjCell (Some ''A'')]], unknown_policy = Ignore\<rparr>"

text \<open>
  A library whose constructors check their arguments: sizes, numbers of units and filters
  and kernel sizes are positive, a reshape keeps the number of entries, a dropout rate is
  at least 0 and less than 1, a penalty strength and a learning rate are not negative, and
  the names of activations, initialisers and paddings are known ones.
\<close>

definition known_activations :: "string list" where
  "known_activations =
     [''relu'', ''elu'', ''selu'', ''gelu'', ''tanh'', ''sigmoid'', ''softmax'', ''softplus'',
      ''linear'']"

definition known_initializers :: "string list" where
  "known_initializers =
     [''he_normal'', ''he_uniform'', ''lecun_normal'', ''lecun_uniform'', ''glorot_normal'',
      ''glorot_uniform'', ''zeros'', ''ones'']"

fun default_or :: "('a \<Rightarrow> bool) \<Rightarrow> 'a option \<Rightarrow> bool" where
  "default_or p None = True"
| "default_or p (Some x) = p x"

fun checks_layer :: "layer \<Rightarrow> bool" where
  "checks_layer (Input d) = (0 < d)"
| "checks_layer (Reshape target_shape input_shape) =
     (list_all (\<lambda>n. 0 < n) target_shape \<and> list_all (\<lambda>n. 0 < n) input_shape \<and>
      prod_list target_shape = prod_list input_shape)"
| "checks_layer (Conv1D filters kernel_size padding activation) =
     (0 < filters \<and> 0 < kernel_size \<and> padding \<in> set [''valid'', ''same'', ''causal''] \<and>
      activation \<in> set known_activations)"
| "checks_layer (Dense units activation kernel_regularizer kernel_initializer) =
     (0 < units \<and> default_or (\<lambda>a. a \<in> set known_activations) activation \<and>
      default_or (\<lambda>r. case r of L2 c \<Rightarrow> 0 \<le> c) kernel_regularizer \<and>
      default_or (\<lambda>k. k \<in> set known_initializers) kernel_initializer)"
| "checks_layer BatchNormalization = True"
| "checks_layer (Dropout rate) = (0 \<le> rate \<and> rate < 1)"
| "checks_layer GlobalAveragePooling1D = True"

fun checks_optimizer :: "optimizer \<Rightarrow> bool" where
  "checks_optimizer (Adam learning_rate) = (0 \<le> learning_rate)"

definition checking_library :: library where
  "checking_library = \<lparr>accepts_layer = checks_layer, accepts_optimizer = checks_optimizer\<rparr>"

text \<open>
  A search library whose trial \<open>k\<close> suggests, for an integer, the lower bound plus \<open>k\<close>,
  capped at the upper bound, for a float the lower bound and for a choice the first one.
  Training runs whose validation history is NaN throughout for trial 1 and otherwise 20,
  then NaN, then 20 minus the number of layers of the model.
\<close>

definition stepping_trial :: "nat \<Rightarrow> trial" where
  "stepping_trial k =
     \<lparr>suggest_int = (\<lambda>name low high. min high (low + int k)),
      suggest_float = (\<lambda>name low high lg. low),
      suggest_categorical_str = (\<lambda>name choices. hd choices),
      suggest_categorical_int = (\<lambda>name choices. hd choices)\<rparr>"

definition stepping_sampler :: "frozen_trial list \<Rightarrow> trial" where
  "stepping_sampler trials = stepping_trial (length trials)"

definition sample_fits :: "nat \<Rightarrow> model \<Rightarrow> int \<Rightarrow> number list" where
  "sample_fits k m batch_size =
     (if k = 1 then [NaN, NaN]
      else [Fin 20, NaN, Fin (20 - real (length (layers m)))])"

section \<open>Properties\<close>

subsection \<open>The categorical filter\<close>

lemma in_col_names_iff: "c \<in> set (col_names df) \<longleftrightarrow> get_col df c \<noteq> None"
  by (simp add: col_names_def get_col_def map_of_eq_None_iff)

lemma overflow_threshold_bounds:
  "10 ^ 308 < overflow_threshold" "overflow_threshold < 10 ^ 309"
  by (simp_all add: overflow_threshold_def)


lemma to_double_in_range: "\<bar>r\<bar> \<le> 10 ^ 308 \<Longrightarrow> to_double r = Fin r"
  using overflow_threshold_bounds(1) by (auto simp: to_double_def)

lemma to_double_small: "\<bar>r\<bar> \<le> 1000000 \<Longrightarrow> to_double r = Fin r"
  by (rule to_double_in_range) simp

lemma fless_rate:
  "fless (fdiv (Fin (real k)) (Fin (real n))) (Fin (3 / 10)) \<longleftrightarrow> 0 < n \<and> 10 * k < 3 * n"
proof (cases "n = 0")
  case True
  then show ?thesis by simp
next
  case False
  have rate: "real k / real n < 3 / 10 \<longleftrightarrow> 10 * k < 3 * n"
  proof -
    from False have "real k / real n < 3 / 10 \<longleftrightarrow> 10 * real k < 3 * real n"
      by (simp add: field_simps)
    also have "\<dots> \<longleftrightarrow> 10 * k < 3 * n"
      by (metis of_nat_less_iff of_nat_mult of_nat_numeral)
    finally show ?thesis .
  qed
  define q where "q = real k / real n"
  have nonneg: "0 \<le> q" by (simp add: q_def)
  have big: "3 / 10 < overflow_threshold"
    using overflow_threshold_bounds(1) by simp
  have "fless (to_double q) (Fin (3 / 10)) \<longleftrightarrow> q < 3 / 10"
  proof (cases "overflow_threshold \<le> q")
    case True
    then show ?thesis using big by (simp add: to_double_def)
  next
    case False
    then show ?thesis using nonneg big by (simp add: to_double_def)
  qed
  then show ?thesis using False rate by (simp add: q_def)
qed

text \<open>
  C1. A column is in the filtered categorical list exactly when it is one of the candidate
  names, it is a column of the table, it has fewer than 30 distinct values and its missing
  rate is below 0.3. The missing rate is below 0.3 exactly when the table has a row and
  ten times the number of missing entries is less than three times the number of rows.
\<close>

theorem filtered_cat_cols_iff:
  "(c \<in> set (filtered_cat_cols df) \<longleftrightarrow>
      c \<in> set categorical_candidates \<and>
      (\<exists>col. get_col df c = Some col \<and> nunique col < 30 \<and>
         fless (missing_rate df col) (Fin (3 / 10)))) \<and>
   (fless (missing_rate df col') (Fin (3 / 10)) \<longleftrightarrow>
      0 < len df \<and> 10 * isna_sum col' < 3 * len df)"
proof (intro conjI)
  show "c \<in> set (filtered_cat_cols df) \<longleftrightarrow>
      c \<in> set categorical_candidates \<and>
      (\<exists>col. get_col df c = Some col \<and> nunique col < 30 \<and>
         fless (missing_rate df col) (Fin (3 / 10)))"
    by (auto simp: filtered_cat_cols_def categorical_cols_def keep_cat_def in_col_names_iff
        split: option.splits)
  show "fless (missing_rate df col') (Fin (3 / 10)) \<longleftrightarrow>
      0 < len df \<and> 10 * isna_sum col' < 3 * len df"
    unfolding missing_rate_def by (rule fless_rate)
qed

text \<open>At the boundaries: 29 distinct values are kept and 30 are not; 8 missing entries of
  30 are kept and 9 of 30 (a rate of exactly 0.3) are not.\<close>

theorem filtered_cat_cols_iff_witness:
  "nunique (the (get_col boundary_df ''LU'')) = 29 \<and>
   ''LU'' \<in> set (filtered_cat_cols boundary_df) \<and>
   nunique (the (get_col boundary_df ''LC'')) = 30 \<and>
   ''LC'' \<notin> set (filtered_cat_cols boundary_df) \<and>
   isna_sum (the (get_col boundary_df ''ISSS'')) = 8 \<and>
   ''ISSS'' \<in> set (filtered_cat_cols boundary_df) \<and>
   isna_sum (the (get_col boundary_df ''USDA'')) = 9 \<and>
   ''USDA'' \<notin> set (filtered_cat_cols boundary_df)"
  using filtered_cat_cols_iff [of "''LU''" boundary_df]
    filtered_cat_cols_iff [of "''LC''" boundary_df]
    filtered_cat_cols_iff [of "''ISSS''" boundary_df]
    filtered_cat_cols_iff [of "''USDA''" boundary_df]
  by (simp add: boundary_df_def get_col_def categorical_candidates_def missing_rate_def
      isna_sum_def len_def to_double_small)

subsection \<open>Row selection\<close>

lemma select_map: "select (map P xs) xs = filter P xs"
  by (induction xs) (simp_all add: select_def)

lemma select_subset: "set (select m xs) \<subseteq> set xs"
  by (auto simp: select_def dest: set_zip_rightD)

lemma length_select: "length m = length xs \<Longrightarrow> length (select m xs) = length (filter id m)"
  by (induction m xs rule: list_induct2) (simp_all add: select_def)

lemma nth_in_select:
  "distinct xs \<Longrightarrow> length m = length xs \<Longrightarrow> p < length xs \<Longrightarrow>
     xs ! p \<in> set (select m xs) \<longleftrightarrow> m ! p"
proof (induction m xs arbitrary: p rule: list_induct2')
  case (4 b bs x xs)
  have notin: "x \<notin> set (select bs xs)" using 4(2) select_subset [of bs xs] by auto
  show ?case
  proof (cases p)
    case 0
    then show ?thesis using notin by (simp add: select_def)
  next
    case (Suc q)
    then have "xs ! q \<noteq> x" using 4 by auto
    then show ?thesis using 4 Suc by (simp add: select_def)
  qed
qed simp_all

lemma isna_col_select_present: "isna_sum (col_select (map Not (isna c)) c) = 0"
proof (cases c)
  case (NumCol xs)
  have "select (map (\<lambda>x. x \<noteq> NaN) xs) xs = filter (\<lambda>x. x \<noteq> NaN) xs" by (rule select_map)
  then show ?thesis using NumCol by (simp add: isna_sum_def comp_def filter_map)
next
  case (ObjCol xs)
  have "select (map (\<lambda>x. x \<noteq> None) xs) xs = filter (\<lambda>x. x \<noteq> None) xs" by (rule select_map)
  then show ?thesis using ObjCol by (auto simp: isna_sum_def comp_def filter_map filter_empty_conv)
qed

lemma length_isna: "length (isna c) = col_len c"
  by (cases c) simp_all

lemma col_len_col_select:
  "length m = col_len c \<Longrightarrow> col_len (col_select m c) = length (filter id m)"
  by (cases c) (simp_all add: length_select)

subsection \<open>Tables\<close>

lemma get_col_filter_rows: "get_col (filter_rows m df) c = map_option (col_select m) (get_col df c)"
  by (simp add: get_col_def filter_rows_def map_of_map)

lemma get_col_set_col:
  "get_col (set_col df n c) x = (if x = n then Some c else get_col df x)"
  by (simp add: get_col_def set_col_def update_conv')

lemma index_set_col: "index (set_col df n c) = index df"
  by (simp add: set_col_def)

subsection \<open>Feature engineering: what a step leaves alone\<close>

lemma assign_Inr:
  "assign df n r = Inr df' \<longleftrightarrow> (\<exists>c. r = Inr c \<and> df' = set_col df n c)"
  by (auto simp: assign_def split: sum.splits)

lemma and_then_Inr: "and_then r f = Inr b \<longleftrightarrow> (\<exists>a. r = Inr a \<and> f a = Inr b)"
  by (auto simp: and_then_def split: sum.splits)

lemma add_EC_OC_ratio_frame:
  assumes "add_EC_OC_ratio df = Inr df'"
  shows "index df' = index df" and "x \<noteq> ''EC_OC_ratio'' \<Longrightarrow> get_col df' x = get_col df x"
  using assms
  by (auto simp: add_EC_OC_ratio_def assign_Inr get_col_set_col index_set_col
      split: option.splits)

lemma add_Clay_Sand_ratio_frame:
  assumes "add_Clay_Sand_ratio df = Inr df'"
  shows "index df' = index df" and "x \<noteq> ''Clay_Sand_ratio'' \<Longrightarrow> get_col df' x = get_col df x"
  using assms
  by (auto simp: add_Clay_Sand_ratio_def assign_Inr get_col_set_col index_set_col
      split: option.splits)

lemma add_NPK_sum_frame:
  assumes "add_NPK_sum df = Inr df'"
  shows "index df' = index df" and "x \<noteq> ''NPK_sum'' \<Longrightarrow> get_col df' x = get_col df x"
  using assms
  by (auto simp: add_NPK_sum_def assign_Inr get_col_set_col index_set_col
      split: option.splits if_splits)

lemma add_log_CaCO3_frame:
  assumes "add_log_CaCO3 df = Inr df'"
  shows "index df' = index df" and "x \<noteq> ''log_CaCO3'' \<Longrightarrow> get_col df' x = get_col df x"
  using assms
  by (auto simp: add_log_CaCO3_def assign_Inr get_col_set_col index_set_col
      split: option.splits)

lemma add_CN_ratio_frame:
  assumes "add_CN_ratio df = Inr df'"
  shows "index df' = index df" and "x \<noteq> ''CN_ratio'' \<Longrightarrow> get_col df' x = get_col df x"
  using assms
  by (auto simp: add_CN_ratio_def assign_Inr get_col_set_col index_set_col
      split: option.splits)

lemma add_Clay_OC_interaction_frame:
  assumes "add_Clay_OC_interaction df = Inr df'"
  shows "index df' = index df"
    and "x \<noteq> ''Clay_OC_interaction'' \<Longrightarrow> get_col df' x = get_col df x"
  using assms
  by (auto simp: add_Clay_OC_interaction_def assign_Inr get_col_set_col index_set_col
      split: option.splits)

lemmas step_frames =
  add_EC_OC_ratio_frame add_Clay_Sand_ratio_frame add_NPK_sum_frame add_log_CaCO3_frame
  add_CN_ratio_frame add_Clay_OC_interaction_frame

lemma feature_engineering_steps:
  assumes "feature_engineering df = Inr df'"
  obtains d1 d2 d3 d4 d5 where
    "add_EC_OC_ratio df = Inr d1" "add_Clay_Sand_ratio d1 = Inr d2" "add_NPK_sum d2 = Inr d3"
    "add_log_CaCO3 d3 = Inr d4" "add_CN_ratio d4 = Inr d5" "add_Clay_OC_interaction d5 = Inr df'"
  using assms unfolding feature_engineering_def and_then_Inr by blast

lemma feature_engineering_index:
  assumes "feature_engineering df = Inr df'"
  shows "index df' = index df"
proof -
  from assms obtain d1 d2 d3 d4 d5 where
    s: "add_EC_OC_ratio df = Inr d1" "add_Clay_Sand_ratio d1 = Inr d2" "add_NPK_sum d2 = Inr d3"
    "add_log_CaCO3 d3 = Inr d4" "add_CN_ratio d4 = Inr d5" "add_Clay_OC_interaction d5 = Inr df'"
    by (rule feature_engineering_steps)
  show ?thesis
    using s by (simp add: step_frames(1,3,5,7,9,11))
qed

lemma feature_engineering_frame:
  assumes "feature_engineering df = Inr df'" and "x \<notin> set engineered_names"
  shows "get_col df' x = get_col df x"
proof -
  from assms(1) obtain d1 d2 d3 d4 d5 where
    s: "add_EC_OC_ratio df = Inr d1" "add_Clay_Sand_ratio d1 = Inr d2" "add_NPK_sum d2 = Inr d3"
    "add_log_CaCO3 d3 = Inr d4" "add_CN_ratio d4 = Inr d5" "add_Clay_OC_interaction d5 = Inr df'"
    by (rule feature_engineering_steps)
  have x: "x \<noteq> ''EC_OC_ratio''" "x \<noteq> ''Clay_Sand_ratio''" "x \<noteq> ''NPK_sum''"
    "x \<noteq> ''log_CaCO3''" "x \<noteq> ''CN_ratio''" "x \<noteq> ''Clay_OC_interaction''"
    using assms(2) by (auto simp: engineered_names_def)
  show ?thesis
    using s x by (simp add: step_frames(2,4,6,8,10,12))
qed

subsection \<open>Rows without a target\<close>

lemma target_not_engineered: "target \<notin> set engineered_names"
  by (simp add: target_def engineered_names_def)

lemma select_cols_map_of:
  "select_cols df ns = Inr cs \<Longrightarrow> map_of cs c = (if c \<in> set ns then get_col df c else None)"
proof (induction ns arbitrary: cs)
  case Nil
  then show ?case by simp
next
  case (Cons n ns)
  then show ?case by (auto split: option.splits sum.splits)
qed

lemma prepare_Inr:
  assumes "prepare df = Inr out"
  obtains t df2 cs where
    "get_col df target = Some t"
    "feature_engineering (filter_rows (map Not (isna t)) df) = Inr df2"
    "select_cols df2 (numeric_cols df2 @ filtered_cat_cols df) = Inr cs"
    "out = \<lparr>cat_cols = filtered_cat_cols df, num_cols = numeric_cols df2,
            X_df = \<lparr>index = index df2, columns = cs\<rparr>,
            y_values = col_select (map Not (isna t)) t\<rparr>"
proof -
  from assms obtain t where t: "get_col df target = Some t"
    by (auto simp: prepare_def dropna_def Let_def split: option.splits)
  let ?d1 = "filter_rows (map Not (isna t)) df"
  from assms t obtain df2 where d2: "feature_engineering ?d1 = Inr df2"
    by (auto simp: prepare_def dropna_def Let_def split: sum.splits)
  have "get_col df2 target = get_col ?d1 target"
    using d2 target_not_engineered by (rule feature_engineering_frame)
  then have yv: "get_col df2 target = Some (col_select (map Not (isna t)) t)"
    using t by (simp add: get_col_filter_rows)
  from assms t d2 yv obtain cs where
    cs: "select_cols df2 (numeric_cols df2 @ filtered_cat_cols df) = Inr cs"
    by (auto simp: prepare_def dropna_def Let_def split: sum.splits)
  have "out = \<lparr>cat_cols = filtered_cat_cols df, num_cols = numeric_cols df2,
            X_df = \<lparr>index = index df2, columns = cs\<rparr>,
            y_values = col_select (map Not (isna t)) t\<rparr>"
    using assms t d2 yv cs by (simp add: prepare_def dropna_def Let_def)
  with t d2 cs show ?thesis by (rule that)
qed

lemma isna_sum_0_iff: "isna_sum c = 0 \<longleftrightarrow> (\<forall>b \<in> set (isna c). \<not> b)"
  by (auto simp: isna_sum_def filter_empty_conv)

lemma isna_col_rows_at:
  assumes "isna_sum c = 0" and "list_all (\<lambda>p. p < col_len c) ps"
  shows "isna_sum (col_rows_at ps c) = 0"
proof (cases c)
  case (NumCol xs)
  with assms show ?thesis
    by (auto simp: isna_sum_0_iff rows_at_def list_all_iff)
next
  case (ObjCol xs)
  with assms show ?thesis
    by (auto simp: isna_sum_0_iff rows_at_def list_all_iff)
qed

lemma index_take_rows:
  "list_all (\<lambda>p. p < len df) ps \<Longrightarrow> set (index (take_rows ps df)) \<subseteq> set (index df)"
  by (auto simp: take_rows_def rows_at_def list_all_iff len_def)

text \<open>
  C2. When the pipeline returns, the row labels of the feature matrix are those of the rows
  whose target is present, the target vector holds the targets of these rows and none is
  missing, both have the same number of rows, the label of a row without target is not in
  the feature matrix, every column of the feature matrix that comes from the table holds
  the table's values of the kept rows, and whatever rows the split picks, both parts hold
  only rows of the feature matrix and targets that are present.
\<close>

theorem rows_without_target_dropped:
  assumes "wf_df df" and "prepare df = Inr out"
  shows "\<exists>t. get_col df target = Some t \<and>
     index (X_df out) = select (map Not (isna t)) (index df) \<and>
     y_values out = col_select (map Not (isna t)) t \<and>
     isna_sum (y_values out) = 0 \<and>
     col_len (y_values out) = len (X_df out) \<and>
     (\<forall>p<len df. isna t ! p \<longrightarrow> index df ! p \<notin> set (index (X_df out))) \<and>
     (\<forall>c col. c \<notin> set engineered_names \<and> get_col (X_df out) c = Some col \<longrightarrow>
        (\<exists>col0. get_col df c = Some col0 \<and> col = col_select (map Not (isna t)) col0)) \<and>
     (\<forall>train_pos test_pos sp.
        train_test_split train_pos test_pos (X_df out) (y_values out) = Inr sp \<longrightarrow>
          set (index (X_train sp)) \<union> set (index (X_test sp)) \<subseteq> set (index (X_df out)) \<and>
          isna_sum (y_train sp) = 0 \<and> isna_sum (y_test sp) = 0)"
proof -
  from assms(2) obtain t df2 cs where
    t: "get_col df target = Some t" and
    d2: "feature_engineering (filter_rows (map Not (isna t)) df) = Inr df2" and
    cs: "select_cols df2 (numeric_cols df2 @ filtered_cat_cols df) = Inr cs" and
    out: "out = \<lparr>cat_cols = filtered_cat_cols df, num_cols = numeric_cols df2,
            X_df = \<lparr>index = index df2, columns = cs\<rparr>,
            y_values = col_select (map Not (isna t)) t\<rparr>"
    by (rule prepare_Inr)
  let ?m = "map Not (isna t)"
  have "(target, t) \<in> set (columns df)"
    using t by (simp add: get_col_def map_of_SomeD)
  then have lt: "col_len t = len df"
    using assms(1) by (auto simp: wf_df_def list_all_iff)
  have dist: "distinct (index df)" using assms(1) by (simp add: wf_df_def)
  have idx: "index (X_df out) = select ?m (index df)"
    using feature_engineering_index [OF d2] out by (simp add: filter_rows_def)
  have yv: "y_values out = col_select ?m t" using out by simp
  have y0: "isna_sum (y_values out) = 0" unfolding yv by (rule isna_col_select_present)
  have lm: "length ?m = length (index df)" using lt by (simp add: length_isna len_def)
  have ylen: "col_len (y_values out) = len (X_df out)"
    unfolding yv idx len_def using lm lt
    by (simp add: col_len_col_select length_isna length_select len_def)
  have gone: "\<forall>p<len df. isna t ! p \<longrightarrow> index df ! p \<notin> set (index (X_df out))"
    unfolding idx using dist lm by (simp add: nth_in_select len_def)
  have vals: "\<forall>c col. c \<notin> set engineered_names \<and> get_col (X_df out) c = Some col \<longrightarrow>
        (\<exists>col0. get_col df c = Some col0 \<and> col = col_select ?m col0)"
  proof (intro allI impI)
    fix c col
    assume a: "c \<notin> set engineered_names \<and> get_col (X_df out) c = Some col"
    then have "map_of cs c = Some col" using out by (simp add: get_col_def)
    then have "get_col df2 c = Some col"
      using select_cols_map_of [OF cs, of c] by (simp split: if_splits)
    then have "get_col (filter_rows ?m df) c = Some col"
      using feature_engineering_frame [OF d2, of c] a by simp
    then show "\<exists>col0. get_col df c = Some col0 \<and> col = col_select ?m col0"
      by (auto simp: get_col_filter_rows)
  qed
  have split: "\<forall>train_pos test_pos sp.
        train_test_split train_pos test_pos (X_df out) (y_values out) = Inr sp \<longrightarrow>
          set (index (X_train sp)) \<union> set (index (X_test sp)) \<subseteq> set (index (X_df out)) \<and>
          isna_sum (y_train sp) = 0 \<and> isna_sum (y_test sp) = 0"
  proof (intro allI impI)
    fix train_pos test_pos sp
    assume a: "train_test_split train_pos test_pos (X_df out) (y_values out) = Inr sp"
    then have ok: "list_all (\<lambda>p. p < len (X_df out)) train_pos"
      "list_all (\<lambda>p. p < len (X_df out)) test_pos"
      and sp: "sp = \<lparr>X_train = take_rows train_pos (X_df out),
        X_test = take_rows test_pos (X_df out),
        y_train = col_rows_at train_pos (y_values out),
        y_test = col_rows_at test_pos (y_values out)\<rparr>"
      by (auto simp: train_test_split_def split: if_splits)
    show "set (index (X_train sp)) \<union> set (index (X_test sp)) \<subseteq> set (index (X_df out)) \<and>
          isna_sum (y_train sp) = 0 \<and> isna_sum (y_test sp) = 0"
      using ok index_take_rows [OF ok(1)] index_take_rows [OF ok(2)] y0 ylen
      by (simp add: sp isna_col_rows_at)
  qed
  show ?thesis using t idx yv y0 ylen gone vals split by blast
qed

lemmas pipeline_defs =
  to_double_small prepare_def filtered_cat_cols_def categorical_cols_def categorical_candidates_def
  keep_cat_def col_names_def get_col_def missing_rate_def isna_sum_def notnull_sum_def len_def
  dropna_def target_def filter_rows_def select_def feature_engineering_def and_then_def
  add_EC_OC_ratio_def add_Clay_Sand_ratio_def add_NPK_sum_def add_log_CaCO3_def
  add_CN_ratio_def add_Clay_OC_interaction_def assign_def set_col_def numeric_cols_def

lemma wf_sample_df: "wf_df sample_df"
  by (simp add: wf_df_def sample_df_def col_names_def len_def)

lemma prepare_sample_df: "prepare sample_df = Inr sample_prepared"
  by (simp add: sample_df_def sample_prepared_def pipeline_defs)

theorem rows_without_target_dropped_witness:
  "wf_df sample_df \<and> prepare sample_df = Inr sample_prepared \<and>
   get_col sample_df target = Some (NumCol [Fin 7, NaN, Fin 6, Fin 5]) \<and>
   index sample_df = [0, 1, 2, 3] \<and>
   index (X_df sample_prepared) = [0, 2, 3] \<and>
   y_values sample_prepared = NumCol [Fin 7, Fin 6, Fin 5] \<and>
   1 \<notin> set (index (X_df sample_prepared))"
proof -
  from rows_without_target_dropped [OF wf_sample_df prepare_sample_df]
  obtain t where t: "get_col sample_df target = Some t"
    and i: "index (X_df sample_prepared) = select (map Not (isna t)) (index sample_df)"
    and v: "y_values sample_prepared = col_select (map Not (isna t)) t"
    and g: "\<forall>p<len sample_df. isna t ! p \<longrightarrow> index sample_df ! p \<notin> set (index (X_df sample_prepared))"
    by blast
  have t': "t = NumCol [Fin 7, NaN, Fin 6, Fin 5]"
    using t by (simp add: sample_df_def get_col_def target_def)
  have "1 \<notin> set (index (X_df sample_prepared))"
    using g [rule_format, of 1] by (simp add: t' sample_df_def len_def)
  then show ?thesis
    using wf_sample_df prepare_sample_df t i v
    by (simp add: t' select_def) (simp add: sample_df_def)
qed

subsection \<open>The filter sees the table as loaded\<close>

lemma prepare_stale_df: "prepare stale_df = Inr stale_prepared"
  by (simp add: stale_df_def stale_prepared_def pipeline_defs)

lemma dropna_stale_df: "dropna target stale_df = Inr stale_dropped"
  by (simp add: stale_df_def stale_dropped_def pipeline_defs)

lemma filtered_stale_dropped: "filtered_cat_cols stale_dropped = [''LC'']"
  by (simp add: stale_dropped_def pipeline_defs)

lemma filtered_stale_df: "filtered_cat_cols stale_df = []"
  by (simp add: stale_df_def pipeline_defs)

lemma prepare_cat_cols: "prepare df = Inr out \<Longrightarrow> cat_cols out = filtered_cat_cols df"
  by (erule prepare_Inr) simp

text \<open>
  C9. The categorical list the pipeline uses is the filter on the table as loaded; and
  there is a table for which it differs from the filter on the table without the rows
  that lack the target.
\<close>

theorem filter_before_dropna:
  "(\<forall>df out. prepare df = Inr out \<longrightarrow> cat_cols out = filtered_cat_cols df) \<and>
   (\<exists>df out df'. wf_df df \<and> prepare df = Inr out \<and> dropna target df = Inr df' \<and>
       cat_cols out \<noteq> filtered_cat_cols df')"
proof (intro conjI allI impI)
  fix df out
  assume "prepare df = Inr out"
  then show "cat_cols out = filtered_cat_cols df" by (rule prepare_cat_cols)
next
  have "wf_df stale_df" by (simp add: wf_df_def stale_df_def col_names_def len_def)
  moreover have "cat_cols stale_prepared \<noteq> filtered_cat_cols stale_dropped"
    by (simp add: filtered_stale_dropped stale_prepared_def)
  ultimately show "\<exists>df out df'. wf_df df \<and> prepare df = Inr out \<and> dropna target df = Inr df' \<and>
       cat_cols out \<noteq> filtered_cat_cols df'"
    using prepare_stale_df dropna_stale_df by blast
qed

theorem filter_before_dropna_witness:
  "prepare stale_df = Inr stale_prepared \<and>
   cat_cols stale_prepared = filtered_cat_cols stale_df \<and>
   filtered_cat_cols stale_df = [] \<and>
   dropna target stale_df = Inr stale_dropped \<and>
   filtered_cat_cols stale_dropped = [''LC'']"
proof -
  have "cat_cols stale_prepared = filtered_cat_cols stale_df"
    by (rule filter_before_dropna [THEN conjunct1, rule_format, OF prepare_stale_df])
  then show ?thesis
    using prepare_stale_df filtered_stale_df dropna_stale_df filtered_stale_dropped by simp
qed

subsection \<open>Feature engineering: what a step computes\<close>

lemma is_numeric_iff: "is_numeric c \<longleftrightarrow> (\<exists>xs. c = NumCol xs)"
  by (cases c) simp_all

lemma numeric_sources_cong:
  assumes "\<And>x. x \<in> set source_names \<Longrightarrow> get_col df' x = get_col df x"
  shows "numeric_sources df' = numeric_sources df"
  using assms by (simp add: numeric_sources_def list_all_iff)

lemma numeric_sourceD:
  "numeric_sources df \<Longrightarrow> c \<in> set source_names \<Longrightarrow> get_col df c = Some col \<Longrightarrow>
     \<exists>xs. col = NumCol xs"
  by (auto simp: numeric_sources_def list_all_iff is_numeric_iff)

lemma add_EC_OC_ratio_num:
  assumes "numeric_sources df"
  shows "\<exists>df'. add_EC_OC_ratio df = Inr df'"
proof (cases "get_col df ''EC''")
  case None
  then show ?thesis by (simp add: add_EC_OC_ratio_def)
next
  case a: (Some ca)
  show ?thesis
  proof (cases "get_col df ''OC''")
    case None
    then show ?thesis by (simp add: add_EC_OC_ratio_def a)
  next
    case b: (Some cb)
    from numeric_sourceD [OF assms _ a] obtain xs where "ca = NumCol xs"
      by (auto simp: source_names_def)
    moreover from numeric_sourceD [OF assms _ b] obtain ys where "cb = NumCol ys"
      by (auto simp: source_names_def)
    ultimately show ?thesis by (simp add: add_EC_OC_ratio_def a b assign_def)
  qed
qed

lemma add_EC_OC_ratio_value:
  assumes "add_EC_OC_ratio df = Inr df'"
    and "get_col df ''EC'' = Some (NumCol xs)" and "get_col df ''OC'' = Some (NumCol ys)"
  shows "get_col df' ''EC_OC_ratio'' =
    Some (NumCol (map2 fdiv xs (map (\<lambda>x. if x = Fin 0 then Fin (1 / 1000) else x) ys)))"
  using assms by (auto simp: add_EC_OC_ratio_def assign_Inr get_col_set_col)

lemma add_EC_OC_ratio_skip:
  assumes "add_EC_OC_ratio df = Inr df'"
    and "get_col df ''EC'' = None \<or> get_col df ''OC'' = None"
  shows "df' = df"
  using assms by (auto simp: add_EC_OC_ratio_def split: option.splits)

lemma add_Clay_Sand_ratio_num:
  assumes "numeric_sources df"
  shows "\<exists>df'. add_Clay_Sand_ratio df = Inr df'"
proof (cases "get_col df ''Clay''")
  case None
  then show ?thesis by (simp add: add_Clay_Sand_ratio_def)
next
  case a: (Some ca)
  show ?thesis
  proof (cases "get_col df ''Sand''")
    case None
    then show ?thesis by (simp add: add_Clay_Sand_ratio_def a)
  next
    case b: (Some cb)
    from numeric_sourceD [OF assms _ a] obtain xs where "ca = NumCol xs"
      by (auto simp: source_names_def)
    moreover from numeric_sourceD [OF assms _ b] obtain ys where "cb = NumCol ys"
      by (auto simp: source_names_def)
    ultimately show ?thesis by (simp add: add_Clay_Sand_ratio_def a b assign_def)
  qed
qed

lemma add_Clay_Sand_ratio_value:
  assumes "add_Clay_Sand_ratio df = Inr df'"
    and "get_col df ''Clay'' = Some (NumCol xs)" and "get_col df ''Sand'' = Some (NumCol ys)"
  shows "get_col df' ''Clay_Sand_ratio'' =
    Some (NumCol (map2 fdiv xs (map (\<lambda>x. if x = Fin 0 then Fin (1 / 1000) else x) ys)))"
  using assms by (auto simp: add_Clay_Sand_ratio_def assign_Inr get_col_set_col)

lemma add_Clay_Sand_ratio_skip:
  assumes "add_Clay_Sand_ratio df = Inr df'"
    and "get_col df ''Clay'' = None \<or> get_col df ''Sand'' = None"
  shows "df' = df"
  using assms by (auto simp: add_Clay_Sand_ratio_def split: option.splits)

lemma add_NPK_sum_num:
  assumes "numeric_sources df"
  shows "\<exists>df'. add_NPK_sum df = Inr df'"
proof (cases "get_col df ''N'' = None \<or> get_col df ''P'' = None \<or> get_col df ''K'' = None")
  case True
  then show ?thesis by (auto simp: add_NPK_sum_def split: option.splits)
next
  case False
  then obtain cn cp ck where
    c: "get_col df ''N'' = Some cn" "get_col df ''P'' = Some cp" "get_col df ''K'' = Some ck"
    by auto
  from numeric_sourceD [OF assms _ c(1)] obtain xs where "cn = NumCol xs"
    by (auto simp: source_names_def)
  moreover from numeric_sourceD [OF assms _ c(2)] obtain ys where "cp = NumCol ys"
    by (auto simp: source_names_def)
  moreover from numeric_sourceD [OF assms _ c(3)] obtain zs where "ck = NumCol zs"
    by (auto simp: source_names_def)
  ultimately show ?thesis by (simp add: add_NPK_sum_def c assign_def)
qed

lemma add_NPK_sum_value:
  assumes "add_NPK_sum df = Inr df'"
    and "get_col df ''N'' = Some (NumCol xs)" and "get_col df ''P'' = Some (NumCol ys)"
    and "get_col df ''K'' = Some (NumCol zs)"
    and "0 < notnull_sum (NumCol xs)" and "0 < notnull_sum (NumCol ys)"
    and "0 < notnull_sum (NumCol zs)"
  shows "get_col df' ''NPK_sum'' = Some (NumCol (map2 fadd (map2 fadd xs ys) zs))"
  using assms by (auto simp: add_NPK_sum_def assign_Inr get_col_set_col)

lemma add_NPK_sum_skip:
  assumes "add_NPK_sum df = Inr df'"
    and "\<not> (\<exists>n p k. get_col df ''N'' = Some n \<and> get_col df ''P'' = Some p \<and>
           get_col df ''K'' = Some k \<and> 0 < notnull_sum n \<and> 0 < notnull_sum p \<and>
           0 < notnull_sum k)"
  shows "df' = df"
  using assms by (auto simp: add_NPK_sum_def split: option.splits if_splits)

lemma add_log_CaCO3_num:
  assumes "numeric_sources df"
  shows "\<exists>df'. add_log_CaCO3 df = Inr df'"
proof (cases "get_col df ''CaCO3''")
  case None
  then show ?thesis by (simp add: add_log_CaCO3_def)
next
  case a: (Some ca)
  from numeric_sourceD [OF assms _ a] obtain xs where "ca = NumCol xs"
    by (auto simp: source_names_def)
  then show ?thesis by (simp add: add_log_CaCO3_def a assign_def)
qed

lemma add_log_CaCO3_value:
  assumes "add_log_CaCO3 df = Inr df'" and "get_col df ''CaCO3'' = Some (NumCol xs)"
  shows "get_col df' ''log_CaCO3'' = Some (NumCol (map log1p xs))"
  using assms by (auto simp: add_log_CaCO3_def assign_Inr get_col_set_col)

lemma add_log_CaCO3_skip:
  assumes "add_log_CaCO3 df = Inr df'" and "get_col df ''CaCO3'' = None"
  shows "df' = df"
  using assms by (auto simp: add_log_CaCO3_def)

lemma add_CN_ratio_num:
  assumes "numeric_sources df"
  shows "\<exists>df'. add_CN_ratio df = Inr df'"
proof (cases "get_col df ''OC''")
  case None
  then show ?thesis by (simp add: add_CN_ratio_def)
next
  case a: (Some ca)
  show ?thesis
  proof (cases "get_col df ''N''")
    case None
    then show ?thesis by (simp add: add_CN_ratio_def a)
  next
    case b: (Some cb)
    from numeric_sourceD [OF assms _ a] obtain xs where "ca = NumCol xs"
      by (auto simp: source_names_def)
    moreover from numeric_sourceD [OF assms _ b] obtain ys where "cb = NumCol ys"
      by (auto simp: source_names_def)
    ultimately show ?thesis by (simp add: add_CN_ratio_def a b assign_def)
  qed
qed

lemma add_CN_ratio_value:
  assumes "add_CN_ratio df = Inr df'"
    and "get_col df ''OC'' = Some (NumCol xs)" and "get_col df ''N'' = Some (NumCol ys)"
  shows "get_col df' ''CN_ratio'' =
    Some (NumCol (map2 fdiv xs (map (\<lambda>x. if x = Fin 0 then Fin (1 / 1000) else x) ys)))"
  using assms by (auto simp: add_CN_ratio_def assign_Inr get_col_set_col)

lemma add_CN_ratio_skip:
  assumes "add_CN_ratio df = Inr df'"
    and "get_col df ''OC'' = None \<or> get_col df ''N'' = None"
  shows "df' = df"
  using assms by (auto simp: add_CN_ratio_def split: option.splits)

lemma add_Clay_OC_interaction_num:
  assumes "numeric_sources df"
  shows "\<exists>df'. add_Clay_OC_interaction df = Inr df'"
proof (cases "get_col df ''Clay''")
  case None
  then show ?thesis by (simp add: add_Clay_OC_interaction_def)
next
  case a: (Some ca)
  show ?thesis
  proof (cases "get_col df ''OC''")
    case None
    then show ?thesis by (simp add: add_Clay_OC_interaction_def a)
  next
    case b: (Some cb)
    from numeric_sourceD [OF assms _ a] obtain xs where "ca = NumCol xs"
      by (auto simp: source_names_def)
    moreover from numeric_sourceD [OF assms _ b] obtain ys where "cb = NumCol ys"
      by (auto simp: source_names_def)
    ultimately show ?thesis by (simp add: add_Clay_OC_interaction_def a b assign_def)
  qed
qed

lemma add_Clay_OC_interaction_value:
  assumes "add_Clay_OC_interaction df = Inr df'"
    and "get_col df ''Clay'' = Some (NumCol xs)" and "get_col df ''OC'' = Some (NumCol ys)"
  shows "get_col df' ''Clay_OC_interaction'' =
    Some (NumCol (map2 fmul xs ys))"
  using assms by (auto simp: add_Clay_OC_interaction_def assign_Inr get_col_set_col)

lemma add_Clay_OC_interaction_skip:
  assumes "add_Clay_OC_interaction df = Inr df'"
    and "get_col df ''Clay'' = None \<or> get_col df ''OC'' = None"
  shows "df' = df"
  using assms by (auto simp: add_Clay_OC_interaction_def split: option.splits)

lemma feature_engineering_num:
  assumes "numeric_sources df"
  shows "\<exists>df'. feature_engineering df = Inr df'"
proof -
  have keep: "numeric_sources d'" if "numeric_sources d" and
    "\<And>x. x \<in> set source_names \<Longrightarrow> get_col d' x = get_col d x" for d d'
    using that numeric_sources_cong [of d' d] by simp
  obtain d1 where 1: "add_EC_OC_ratio df = Inr d1"
    using add_EC_OC_ratio_num [OF assms] by blast
  have n1: "numeric_sources d1"
    by (rule keep [OF assms]) (auto simp: source_names_def add_EC_OC_ratio_frame(2) [OF 1])
  obtain d2 where 2: "add_Clay_Sand_ratio d1 = Inr d2"
    using add_Clay_Sand_ratio_num [OF n1] by blast
  have n2: "numeric_sources d2"
    by (rule keep [OF n1]) (auto simp: source_names_def add_Clay_Sand_ratio_frame(2) [OF 2])
  obtain d3 where 3: "add_NPK_sum d2 = Inr d3"
    using add_NPK_sum_num [OF n2] by blast
  have n3: "numeric_sources d3"
    by (rule keep [OF n2]) (auto simp: source_names_def add_NPK_sum_frame(2) [OF 3])
  obtain d4 where 4: "add_log_CaCO3 d3 = Inr d4"
    using add_log_CaCO3_num [OF n3] by blast
  have n4: "numeric_sources d4"
    by (rule keep [OF n3]) (auto simp: source_names_def add_log_CaCO3_frame(2) [OF 4])
  obtain d5 where 5: "add_CN_ratio d4 = Inr d5"
    using add_CN_ratio_num [OF n4] by blast
  have n5: "numeric_sources d5"
    by (rule keep [OF n4]) (auto simp: source_names_def add_CN_ratio_frame(2) [OF 5])
  obtain d6 where 6: "add_Clay_OC_interaction d5 = Inr d6"
    using add_Clay_OC_interaction_num [OF n5] by blast
  show ?thesis
    unfolding feature_engineering_def and_then_Inr using 1 2 3 4 5 6 by blast
qed

subsection \<open>Feature engineering: the columns after all steps\<close>

lemma fe_EC_OC_ratio_value:
  assumes "feature_engineering df = Inr df'"
    and "get_col df ''EC'' = Some (NumCol xs)" and "get_col df ''OC'' = Some (NumCol ys)"
  shows "get_col df' ''EC_OC_ratio'' = Some (NumCol (map2 fdiv xs (map (\<lambda>x. if x = Fin 0 then Fin (1 / 1000) else x) ys)))"
proof -
  from assms(1) obtain d1 d2 d3 d4 d5 where
    s: "add_EC_OC_ratio df = Inr d1" "add_Clay_Sand_ratio d1 = Inr d2" "add_NPK_sum d2 = Inr d3"
    "add_log_CaCO3 d3 = Inr d4" "add_CN_ratio d4 = Inr d5" "add_Clay_OC_interaction d5 = Inr df'"
    by (rule feature_engineering_steps)
  note fr = add_EC_OC_ratio_frame(2) [OF s(1)] add_Clay_Sand_ratio_frame(2) [OF s(2)]
    add_NPK_sum_frame(2) [OF s(3)] add_log_CaCO3_frame(2) [OF s(4)]
    add_CN_ratio_frame(2) [OF s(5)] add_Clay_OC_interaction_frame(2) [OF s(6)]
  have src: "get_col df ''EC'' = get_col df ''EC''" "get_col df ''OC'' = get_col df ''OC''"
    by (simp_all add: fr)
  have "get_col d1 ''EC_OC_ratio'' = Some (NumCol (map2 fdiv xs (map (\<lambda>x. if x = Fin 0 then Fin (1 / 1000) else x) ys)))"
    using add_EC_OC_ratio_value [OF s(1)] src assms by simp
  moreover have "get_col df' ''EC_OC_ratio'' = get_col d1 ''EC_OC_ratio''"
    by (simp add: fr)
  ultimately show ?thesis by simp
qed

lemma fe_EC_OC_ratio_skip:
  assumes "feature_engineering df = Inr df'"
    and "get_col df ''EC'' = None \<or> get_col df ''OC'' = None"
  shows "get_col df' ''EC_OC_ratio'' = get_col df ''EC_OC_ratio''"
proof -
  from assms(1) obtain d1 d2 d3 d4 d5 where
    s: "add_EC_OC_ratio df = Inr d1" "add_Clay_Sand_ratio d1 = Inr d2" "add_NPK_sum d2 = Inr d3"
    "add_log_CaCO3 d3 = Inr d4" "add_CN_ratio d4 = Inr d5" "add_Clay_OC_interaction d5 = Inr df'"
    by (rule feature_engineering_steps)
  note fr = add_EC_OC_ratio_frame(2) [OF s(1)] add_Clay_Sand_ratio_frame(2) [OF s(2)]
    add_NPK_sum_frame(2) [OF s(3)] add_log_CaCO3_frame(2) [OF s(4)]
    add_CN_ratio_frame(2) [OF s(5)] add_Clay_OC_interaction_frame(2) [OF s(6)]
  have src: "get_col df ''EC'' = get_col df ''EC''" "get_col df ''OC'' = get_col df ''OC''"
    by (simp_all add: fr)
  have "get_col df ''EC'' = None \<or> get_col df ''OC'' = None"
    using assms(2) src by simp
  then have "d1 = df"
    using add_EC_OC_ratio_skip [OF s(1)] by simp
  moreover have "get_col df' ''EC_OC_ratio'' = get_col d1 ''EC_OC_ratio''"
    by (simp add: fr)
  moreover have "get_col df ''EC_OC_ratio'' = get_col df ''EC_OC_ratio''"
    by (simp add: fr)
  ultimately show ?thesis by simp
qed

lemma fe_Clay_Sand_ratio_value:
  assumes "feature_engineering df = Inr df'"
    and "get_col df ''Clay'' = Some (NumCol xs)" and "get_col df ''Sand'' = Some (NumCol ys)"
  shows "get_col df' ''Clay_Sand_ratio'' = Some (NumCol (map2 fdiv xs (map (\<lambda>x. if x = Fin 0 then Fin (1 / 1000) else x) ys)))"
proof -
  from assms(1) obtain d1 d2 d3 d4 d5 where
    s: "add_EC_OC_ratio df = Inr d1" "add_Clay_Sand_ratio d1 = Inr d2" "add_NPK_sum d2 = Inr d3"
    "add_log_CaCO3 d3 = Inr d4" "add_CN_ratio d4 = Inr d5" "add_Clay_OC_interaction d5 = Inr df'"
    by (rule feature_engineering_steps)
  note fr = add_EC_OC_ratio_frame(2) [OF s(1)] add_Clay_Sand_ratio_frame(2) [OF s(2)]
    add_NPK_sum_frame(2) [OF s(3)] add_log_CaCO3_frame(2) [OF s(4)]
    add_CN_ratio_frame(2) [OF s(5)] add_Clay_OC_interaction_frame(2) [OF s(6)]
  have src: "get_col d1 ''Clay'' = get_col df ''Clay''" "get_col d1 ''Sand'' = get_col df ''Sand''"
    by (simp_all add: fr)
  have "get_col d2 ''Clay_Sand_ratio'' = Some (NumCol (map2 fdiv xs (map (\<lambda>x. if x = Fin 0 then Fin (1 / 1000) else x) ys)))"
    using add_Clay_Sand_ratio_value [OF s(2)] src assms by simp
  moreover have "get_col df' ''Clay_Sand_ratio'' = get_col d2 ''Clay_Sand_ratio''"
    by (simp add: fr)
  ultimately show ?thesis by simp
qed

lemma fe_Clay_Sand_ratio_skip:
  assumes "feature_engineering df = Inr df'"
    and "get_col df ''Clay'' = None \<or> get_col df ''Sand'' = None"
  shows "get_col df' ''Clay_Sand_ratio'' = get_col df ''Clay_Sand_ratio''"
proof -
  from assms(1) obtain d1 d2 d3 d4 d5 where
    s: "add_EC_OC_ratio df = Inr d1" "add_Clay_Sand_ratio d1 = Inr d2" "add_NPK_sum d2 = Inr d3"
    "add_log_CaCO3 d3 = Inr d4" "add_CN_ratio d4 = Inr d5" "add_Clay_OC_interaction d5 = Inr df'"
    by (rule feature_engineering_steps)
  note fr = add_EC_OC_ratio_frame(2) [OF s(1)] add_Clay_Sand_ratio_frame(2) [OF s(2)]
    add_NPK_sum_frame(2) [OF s(3)] add_log_CaCO3_frame(2) [OF s(4)]
    add_CN_ratio_frame(2) [OF s(5)] add_Clay_OC_interaction_frame(2) [OF s(6)]
  have src: "get_col d1 ''Clay'' = get_col df ''Clay''" "get_col d1 ''Sand'' = get_col df ''Sand''"
    by (simp_all add: fr)
  have "get_col d1 ''Clay'' = None \<or> get_col d1 ''Sand'' = None"
    using assms(2) src by simp
  then have "d2 = d1"
    using add_Clay_Sand_ratio_skip [OF s(2)] by simp
  moreover have "get_col df' ''Clay_Sand_ratio'' = get_col d2 ''Clay_Sand_ratio''"
    by (simp add: fr)
  moreover have "get_col d1 ''Clay_Sand_ratio'' = get_col df ''Clay_Sand_ratio''"
    by (simp add: fr)
  ultimately show ?thesis by simp
qed

lemma fe_NPK_sum_value:
  assumes "feature_engineering df = Inr df'"
    and "get_col df ''N'' = Some (NumCol xs)" and "get_col df ''P'' = Some (NumCol ys)" and "get_col df ''K'' = Some (NumCol zs)"
    and "0 < notnull_sum (NumCol xs)" and "0 < notnull_sum (NumCol ys)"
    and "0 < notnull_sum (NumCol zs)"
  shows "get_col df' ''NPK_sum'' = Some (NumCol (map2 fadd (map2 fadd xs ys) zs))"
proof -
  from assms(1) obtain d1 d2 d3 d4 d5 where
    s: "add_EC_OC_ratio df = Inr d1" "add_Clay_Sand_ratio d1 = Inr d2" "add_NPK_sum d2 = Inr d3"
    "add_log_CaCO3 d3 = Inr d4" "add_CN_ratio d4 = Inr d5" "add_Clay_OC_interaction d5 = Inr df'"
    by (rule feature_engineering_steps)
  note fr = add_EC_OC_ratio_frame(2) [OF s(1)] add_Clay_Sand_ratio_frame(2) [OF s(2)]
    add_NPK_sum_frame(2) [OF s(3)] add_log_CaCO3_frame(2) [OF s(4)]
    add_CN_ratio_frame(2) [OF s(5)] add_Clay_OC_interaction_frame(2) [OF s(6)]
  have src: "get_col d2 ''N'' = get_col df ''N''" "get_col d2 ''P'' = get_col df ''P''" "get_col d2 ''K'' = get_col df ''K''"
    by (simp_all add: fr)
  have "get_col d3 ''NPK_sum'' = Some (NumCol (map2 fadd (map2 fadd xs ys) zs))"
    using add_NPK_sum_value [OF s(3)] src assms by simp
  moreover have "get_col df' ''NPK_sum'' = get_col d3 ''NPK_sum''"
    by (simp add: fr)
  ultimately show ?thesis by simp
qed

lemma fe_NPK_sum_skip:
  assumes "feature_engineering df = Inr df'"
    and "\<not> (\<exists>n p k. get_col df ''N'' = Some n \<and> get_col df ''P'' = Some p \<and>
           get_col df ''K'' = Some k \<and> 0 < notnull_sum n \<and> 0 < notnull_sum p \<and>
           0 < notnull_sum k)"
  shows "get_col df' ''NPK_sum'' = get_col df ''NPK_sum''"
proof -
  from assms(1) obtain d1 d2 d3 d4 d5 where
    s: "add_EC_OC_ratio df = Inr d1" "add_Clay_Sand_ratio d1 = Inr d2" "add_NPK_sum d2 = Inr d3"
    "add_log_CaCO3 d3 = Inr d4" "add_CN_ratio d4 = Inr d5" "add_Clay_OC_interaction d5 = Inr df'"
    by (rule feature_engineering_steps)
  note fr = add_EC_OC_ratio_frame(2) [OF s(1)] add_Clay_Sand_ratio_frame(2) [OF s(2)]
    add_NPK_sum_frame(2) [OF s(3)] add_log_CaCO3_frame(2) [OF s(4)]
    add_CN_ratio_frame(2) [OF s(5)] add_Clay_OC_interaction_frame(2) [OF s(6)]
  have src: "get_col d2 ''N'' = get_col df ''N''" "get_col d2 ''P'' = get_col df ''P''" "get_col d2 ''K'' = get_col df ''K''"
    by (simp_all add: fr)
  have "\<not> (\<exists>n p k. get_col d2 ''N'' = Some n \<and> get_col d2 ''P'' = Some p \<and>
           get_col d2 ''K'' = Some k \<and> 0 < notnull_sum n \<and> 0 < notnull_sum p \<and>
           0 < notnull_sum k)"
    using assms(2) src by simp
  then have "d3 = d2"
    using add_NPK_sum_skip [OF s(3)] by simp
  moreover have "get_col df' ''NPK_sum'' = get_col d3 ''NPK_sum''"
    by (simp add: fr)
  moreover have "get_col d2 ''NPK_sum'' = get_col df ''NPK_sum''"
    by (simp add: fr)
  ultimately show ?thesis by simp
qed

lemma fe_log_CaCO3_value:
  assumes "feature_engineering df = Inr df'"
    and "get_col df ''CaCO3'' = Some (NumCol xs)"
  shows "get_col df' ''log_CaCO3'' = Some (NumCol (map log1p xs))"
proof -
  from assms(1) obtain d1 d2 d3 d4 d5 where
    s: "add_EC_OC_ratio df = Inr d1" "add_Clay_Sand_ratio d1 = Inr d2" "add_NPK_sum d2 = Inr d3"
    "add_log_CaCO3 d3 = Inr d4" "add_CN_ratio d4 = Inr d5" "add_Clay_OC_interaction d5 = Inr df'"
    by (rule feature_engineering_steps)
  note fr = add_EC_OC_ratio_frame(2) [OF s(1)] add_Clay_Sand_ratio_frame(2) [OF s(2)]
    add_NPK_sum_frame(2) [OF s(3)] add_log_CaCO3_frame(2) [OF s(4)]
    add_CN_ratio_frame(2) [OF s(5)] add_Clay_OC_interaction_frame(2) [OF s(6)]
  have src: "get_col d3 ''CaCO3'' = get_col df ''CaCO3''"
    by (simp_all add: fr)
  have "get_col d4 ''log_CaCO3'' = Some (NumCol (map log1p xs))"
    using add_log_CaCO3_value [OF s(4)] src assms by simp
  moreover have "get_col df' ''log_CaCO3'' = get_col d4 ''log_CaCO3''"
    by (simp add: fr)
  ultimately show ?thesis by simp
qed

lemma fe_log_CaCO3_skip:
  assumes "feature_engineering df = Inr df'"
    and "get_col df ''CaCO3'' = None"
  shows "get_col df' ''log_CaCO3'' = get_col df ''log_CaCO3''"
proof -
  from assms(1) obtain d1 d2 d3 d4 d5 where
    s: "add_EC_OC_ratio df = Inr d1" "add_Clay_Sand_ratio d1 = Inr d2" "add_NPK_sum d2 = Inr d3"
    "add_log_CaCO3 d3 = Inr d4" "add_CN_ratio d4 = Inr d5" "add_Clay_OC_interaction d5 = Inr df'"
    by (rule feature_engineering_steps)
  note fr = add_EC_OC_ratio_frame(2) [OF s(1)] add_Clay_Sand_ratio_frame(2) [OF s(2)]
    add_NPK_sum_frame(2) [OF s(3)] add_log_CaCO3_frame(2) [OF s(4)]
    add_CN_ratio_frame(2) [OF s(5)] add_Clay_OC_interaction_frame(2) [OF s(6)]
  have src: "get_col d3 ''CaCO3'' = get_col df ''CaCO3''"
    by (simp_all add: fr)
  have "get_col d3 ''CaCO3'' = None"
    using assms(2) src by simp
  then have "d4 = d3"
    using add_log_CaCO3_skip [OF s(4)] by simp
  moreover have "get_col df' ''log_CaCO3'' = get_col d4 ''log_CaCO3''"
    by (simp add: fr)
  moreover have "get_col d3 ''log_CaCO3'' = get_col df ''log_CaCO3''"
    by (simp add: fr)
  ultimately show ?thesis by simp
qed

lemma fe_CN_ratio_value:
  assumes "feature_engineering df = Inr df'"
    and "get_col df ''OC'' = Some (NumCol xs)" and "get_col df ''N'' = Some (NumCol ys)"
  shows "get_col df' ''CN_ratio'' = Some (NumCol (map2 fdiv xs (map (\<lambda>x. if x = Fin 0 then Fin (1 / 1000) else x) ys)))"
proof -
  from assms(1) obtain d1 d2 d3 d4 d5 where
    s: "add_EC_OC_ratio df = Inr d1" "add_Clay_Sand_ratio d1 = Inr d2" "add_NPK_sum d2 = Inr d3"
    "add_log_CaCO3 d3 = Inr d4" "add_CN_ratio d4 = Inr d5" "add_Clay_OC_interaction d5 = Inr df'"
    by (rule feature_engineering_steps)
  note fr = add_EC_OC_ratio_frame(2) [OF s(1)] add_Clay_Sand_ratio_frame(2) [OF s(2)]
    add_NPK_sum_frame(2) [OF s(3)] add_log_CaCO3_frame(2) [OF s(4)]
    add_CN_ratio_frame(2) [OF s(5)] add_Clay_OC_interaction_frame(2) [OF s(6)]
  have src: "get_col d4 ''OC'' = get_col df ''OC''" "get_col d4 ''N'' = get_col df ''N''"
    by (simp_all add: fr)
  have "get_col d5 ''CN_ratio'' = Some (NumCol (map2 fdiv xs (map (\<lambda>x. if x = Fin 0 then Fin (1 / 1000) else x) ys)))"
    using add_CN_ratio_value [OF s(5)] src assms by simp
  moreover have "get_col df' ''CN_ratio'' = get_col d5 ''CN_ratio''"
    by (simp add: fr)
  ultimately show ?thesis by simp
qed

lemma fe_CN_ratio_skip:
  assumes "feature_engineering df = Inr df'"
    and "get_col df ''OC'' = None \<or> get_col df ''N'' = None"
  shows "get_col df' ''CN_ratio'' = get_col df ''CN_ratio''"
proof -
  from assms(1) obtain d1 d2 d3 d4 d5 where
    s: "add_EC_OC_ratio df = Inr d1" "add_Clay_Sand_ratio d1 = Inr d2" "add_NPK_sum d2 = Inr d3"
    "add_log_CaCO3 d3 = Inr d4" "add_CN_ratio d4 = Inr d5" "add_Clay_OC_interaction d5 = Inr df'"
    by (rule feature_engineering_steps)
  note fr = add_EC_OC_ratio_frame(2) [OF s(1)] add_Clay_Sand_ratio_frame(2) [OF s(2)]
    add_NPK_sum_frame(2) [OF s(3)] add_log_CaCO3_frame(2) [OF s(4)]
    add_CN_ratio_frame(2) [OF s(5)] add_Clay_OC_interaction_frame(2) [OF s(6)]
  have src: "get_col d4 ''OC'' = get_col df ''OC''" "get_col d4 ''N'' = get_col df ''N''"
    by (simp_all add: fr)
  have "get_col d4 ''OC'' = None \<or> get_col d4 ''N'' = None"
    using assms(2) src by simp
  then have "d5 = d4"
    using add_CN_ratio_skip [OF s(5)] by simp
  moreover have "get_col df' ''CN_ratio'' = get_col d5 ''CN_ratio''"
    by (simp add: fr)
  moreover have "get_col d4 ''CN_ratio'' = get_col df ''CN_ratio''"
    by (simp add: fr)
  ultimately show ?thesis by simp
qed

lemma fe_Clay_OC_interaction_value:
  assumes "feature_engineering df = Inr df'"
    and "get_col df ''Clay'' = Some (NumCol xs)" and "get_col df ''OC'' = Some (NumCol ys)"
  shows "get_col df' ''Clay_OC_interaction'' = Some (NumCol (map2 fmul xs ys))"
proof -
  from assms(1) obtain d1 d2 d3 d4 d5 where
    s: "add_EC_OC_ratio df = Inr d1" "add_Clay_Sand_ratio d1 = Inr d2" "add_NPK_sum d2 = Inr d3"
    "add_log_CaCO3 d3 = Inr d4" "add_CN_ratio d4 = Inr d5" "add_Clay_OC_interaction d5 = Inr df'"
    by (rule feature_engineering_steps)
  note fr = add_EC_OC_ratio_frame(2) [OF s(1)] add_Clay_Sand_ratio_frame(2) [OF s(2)]
    add_NPK_sum_frame(2) [OF s(3)] add_log_CaCO3_frame(2) [OF s(4)]
    add_CN_ratio_frame(2) [OF s(5)] add_Clay_OC_interaction_frame(2) [OF s(6)]
  have src: "get_col d5 ''Clay'' = get_col df ''Clay''" "get_col d5 ''OC'' = get_col df ''OC''"
    by (simp_all add: fr)
  have "get_col df' ''Clay_OC_interaction'' = Some (NumCol (map2 fmul xs ys))"
    using add_Clay_OC_interaction_value [OF s(6)] src assms by simp
  moreover have "get_col df' ''Clay_OC_interaction'' = get_col df' ''Clay_OC_interaction''"
    by (simp add: fr)
  ultimately show ?thesis by simp
qed

lemma fe_Clay_OC_interaction_skip:
  assumes "feature_engineering df = Inr df'"
    and "get_col df ''Clay'' = None \<or> get_col df ''OC'' = None"
  shows "get_col df' ''Clay_OC_interaction'' = get_col df ''Clay_OC_interaction''"
proof -
  from assms(1) obtain d1 d2 d3 d4 d5 where
    s: "add_EC_OC_ratio df = Inr d1" "add_Clay_Sand_ratio d1 = Inr d2" "add_NPK_sum d2 = Inr d3"
    "add_log_CaCO3 d3 = Inr d4" "add_CN_ratio d4 = Inr d5" "add_Clay_OC_interaction d5 = Inr df'"
    by (rule feature_engineering_steps)
  note fr = add_EC_OC_ratio_frame(2) [OF s(1)] add_Clay_Sand_ratio_frame(2) [OF s(2)]
    add_NPK_sum_frame(2) [OF s(3)] add_log_CaCO3_frame(2) [OF s(4)]
    add_CN_ratio_frame(2) [OF s(5)] add_Clay_OC_interaction_frame(2) [OF s(6)]
  have src: "get_col d5 ''Clay'' = get_col df ''Clay''" "get_col d5 ''OC'' = get_col df ''OC''"
    by (simp_all add: fr)
  have "get_col d5 ''Clay'' = None \<or> get_col d5 ''OC'' = None"
    using assms(2) src by simp
  then have "df' = d5"
    using add_Clay_OC_interaction_skip [OF s(6)] by simp
  moreover have "get_col df' ''Clay_OC_interaction'' = get_col df' ''Clay_OC_interaction''"
    by (simp add: fr)
  moreover have "get_col d5 ''Clay_OC_interaction'' = get_col df ''Clay_OC_interaction''"
    by (simp add: fr)
  ultimately show ?thesis by simp
qed

subsection \<open>Computed and skipped features\<close>

lemma numeric_present:
  assumes "numeric_sources df" and "c \<in> set source_names" and "c \<in> set (col_names df)"
  shows "\<exists>xs. get_col df c = Some (NumCol xs)"
  using assms numeric_sourceD [OF assms(1,2)] by (auto simp: in_col_names_iff)

text \<open>
  C4. On a table whose measurement columns are numeric, feature engineering returns a
  table, with the same rows, in which every column that is not one of the six engineered
  names is as before, and for each of the six features: when all its source columns are in
  the table (and, for \<open>NPK_sum\<close>, each has an entry that is present) the feature is a
  numeric column of the result; otherwise the step is skipped and that column is as before
  (absent, when it was absent).
\<close>

theorem engineered_iff_sources:
  assumes "numeric_sources df"
  shows "\<exists>df'. feature_engineering df = Inr df' \<and> index df' = index df \<and>
     (\<forall>x. x \<notin> set engineered_names \<longrightarrow> get_col df' x = get_col df x) \<and>
     (\<forall>(f, srcs) \<in> set feature_sources.
        if sources_ready df f srcs then \<exists>v. get_col df' f = Some (NumCol v)
        else get_col df' f = get_col df f)"
proof -
  from feature_engineering_num [OF assms] obtain df' where fe: "feature_engineering df = Inr df'"
    by blast
  note np = numeric_present [OF assms]
  have f1: "if sources_ready df ''EC_OC_ratio'' [''EC'', ''OC'']
    then \<exists>v. get_col df' ''EC_OC_ratio'' = Some (NumCol v)
    else get_col df' ''EC_OC_ratio'' = get_col df ''EC_OC_ratio''"
  proof (cases "sources_ready df ''EC_OC_ratio'' [''EC'', ''OC'']")
    case True
    then have m: "''EC'' \<in> set (col_names df)" "''OC'' \<in> set (col_names df)"
      by (simp_all add: sources_ready_def)
    from np [of "''EC''"] m(1) obtain xs where g1: "get_col df ''EC'' = Some (NumCol xs)"
      by (auto simp: source_names_def)
    from np [of "''OC''"] m(2) obtain ys where g2: "get_col df ''OC'' = Some (NumCol ys)"
      by (auto simp: source_names_def)
    show ?thesis using True fe_EC_OC_ratio_value [OF fe g1 g2] by simp
  next
    case False
    then have "get_col df ''EC'' = None \<or> get_col df ''OC'' = None"
      by (auto simp: sources_ready_def in_col_names_iff)
    then show ?thesis using False fe_EC_OC_ratio_skip [OF fe] by simp
  qed
  have f2: "if sources_ready df ''Clay_Sand_ratio'' [''Clay'', ''Sand'']
    then \<exists>v. get_col df' ''Clay_Sand_ratio'' = Some (NumCol v)
    else get_col df' ''Clay_Sand_ratio'' = get_col df ''Clay_Sand_ratio''"
  proof (cases "sources_ready df ''Clay_Sand_ratio'' [''Clay'', ''Sand'']")
    case True
    then have m: "''Clay'' \<in> set (col_names df)" "''Sand'' \<in> set (col_names df)"
      by (simp_all add: sources_ready_def)
    from np [of "''Clay''"] m(1) obtain xs where g1: "get_col df ''Clay'' = Some (NumCol xs)"
      by (auto simp: source_names_def)
    from np [of "''Sand''"] m(2) obtain ys where g2: "get_col df ''Sand'' = Some (NumCol ys)"
      by (auto simp: source_names_def)
    show ?thesis using True fe_Clay_Sand_ratio_value [OF fe g1 g2] by simp
  next
    case False
    then have "get_col df ''Clay'' = None \<or> get_col df ''Sand'' = None"
      by (auto simp: sources_ready_def in_col_names_iff)
    then show ?thesis using False fe_Clay_Sand_ratio_skip [OF fe] by simp
  qed
  have f3: "if sources_ready df ''NPK_sum'' [''N'', ''P'', ''K'']
    then \<exists>v. get_col df' ''NPK_sum'' = Some (NumCol v)
    else get_col df' ''NPK_sum'' = get_col df ''NPK_sum''"
  proof (cases "sources_ready df ''NPK_sum'' [''N'', ''P'', ''K'']")
    case True
    then have m: "''N'' \<in> set (col_names df)" "''P'' \<in> set (col_names df)" "''K'' \<in> set (col_names df)"
      by (simp_all add: sources_ready_def)
    from np [of "''N''"] m(1) obtain xs where g1: "get_col df ''N'' = Some (NumCol xs)"
      by (auto simp: source_names_def)
    from np [of "''P''"] m(2) obtain ys where g2: "get_col df ''P'' = Some (NumCol ys)"
      by (auto simp: source_names_def)
    from np [of "''K''"] m(3) obtain zs where g3: "get_col df ''K'' = Some (NumCol zs)"
      by (auto simp: source_names_def)
    have "0 < notnull_sum (NumCol xs)" "0 < notnull_sum (NumCol ys)" "0 < notnull_sum (NumCol zs)"
      using True g1 g2 g3 by (simp_all add: sources_ready_def)
    then show ?thesis using True fe_NPK_sum_value [OF fe g1 g2 g3] by simp
  next
    case False
    then have "\<not> (\<exists>n p k. get_col df ''N'' = Some n \<and> get_col df ''P'' = Some p \<and>
           get_col df ''K'' = Some k \<and> 0 < notnull_sum n \<and> 0 < notnull_sum p \<and>
           0 < notnull_sum k)"
      by (auto simp: sources_ready_def in_col_names_iff)
    then show ?thesis using False fe_NPK_sum_skip [OF fe] by simp
  qed
  have f4: "if sources_ready df ''log_CaCO3'' [''CaCO3'']
    then \<exists>v. get_col df' ''log_CaCO3'' = Some (NumCol v)
    else get_col df' ''log_CaCO3'' = get_col df ''log_CaCO3''"
  proof (cases "sources_ready df ''log_CaCO3'' [''CaCO3'']")
    case True
    then have m: "''CaCO3'' \<in> set (col_names df)"
      by (simp_all add: sources_ready_def)
    from np [of "''CaCO3''"] m(1) obtain xs where g1: "get_col df ''CaCO3'' = Some (NumCol xs)"
      by (auto simp: source_names_def)
    show ?thesis using True fe_log_CaCO3_value [OF fe g1] by simp
  next
    case False
    then have "get_col df ''CaCO3'' = None"
      by (auto simp: sources_ready_def in_col_names_iff)
    then show ?thesis using False fe_log_CaCO3_skip [OF fe] by simp
  qed
  have f5: "if sources_ready df ''CN_ratio'' [''OC'', ''N'']
    then \<exists>v. get_col df' ''CN_ratio'' = Some (NumCol v)
    else get_col df' ''CN_ratio'' = get_col df ''CN_ratio''"
  proof (cases "sources_ready df ''CN_ratio'' [''OC'', ''N'']")
    case True
    then have m: "''OC'' \<in> set (col_names df)" "''N'' \<in> set (col_names df)"
      by (simp_all add: sources_ready_def)
    from np [of "''OC''"] m(1) obtain xs where g1: "get_col df ''OC'' = Some (NumCol xs)"
      by (auto simp: source_names_def)
    from np [of "''N''"] m(2) obtain ys where g2: "get_col df ''N'' = Some (NumCol ys)"
      by (auto simp: source_names_def)
    show ?thesis using True fe_CN_ratio_value [OF fe g1 g2] by simp
  next
    case False
    then have "get_col df ''OC'' = None \<or> get_col df ''N'' = None"
      by (auto simp: sources_ready_def in_col_names_iff)
    then show ?thesis using False fe_CN_ratio_skip [OF fe] by simp
  qed
  have f6: "if sources_ready df ''Clay_OC_interaction'' [''Clay'', ''OC'']
    then \<exists>v. get_col df' ''Clay_OC_interaction'' = Some (NumCol v)
    else get_col df' ''Clay_OC_interaction'' = get_col df ''Clay_OC_interaction''"
  proof (cases "sources_ready df ''Clay_OC_interaction'' [''Clay'', ''OC'']")
    case True
    then have m: "''Clay'' \<in> set (col_names df)" "''OC'' \<in> set (col_names df)"
      by (simp_all add: sources_ready_def)
    from np [of "''Clay''"] m(1) obtain xs where g1: "get_col df ''Clay'' = Some (NumCol xs)"
      by (auto simp: source_names_def)
    from np [of "''OC''"] m(2) obtain ys where g2: "get_col df ''OC'' = Some (NumCol ys)"
      by (auto simp: source_names_def)
    show ?thesis using True fe_Clay_OC_interaction_value [OF fe g1 g2] by simp
  next
    case False
    then have "get_col df ''Clay'' = None \<or> get_col df ''OC'' = None"
      by (auto simp: sources_ready_def in_col_names_iff)
    then show ?thesis using False fe_Clay_OC_interaction_skip [OF fe] by simp
  qed
  have all: "\<forall>(f, srcs) \<in> set feature_sources.
        if sources_ready df f srcs then \<exists>v. get_col df' f = Some (NumCol v)
        else get_col df' f = get_col df f"
    unfolding feature_sources_def using f1 f2 f3 f4 f5 f6 by simp
  have "\<forall>x. x \<notin> set engineered_names \<longrightarrow> get_col df' x = get_col df x"
    using feature_engineering_frame [OF fe] by blast
  then show ?thesis
    using fe feature_engineering_index [OF fe] all by blast
qed

lemma numeric_sources_sample_df: "numeric_sources sample_df"
  by (simp add: numeric_sources_def source_names_def sample_df_def get_col_def)

lemma feature_engineering_sample_df: "feature_engineering sample_df = Inr sample_engineered"
  by (simp add: sample_df_def sample_engineered_def pipeline_defs)

theorem engineered_iff_sources_witness:
  "numeric_sources sample_df \<and> feature_engineering sample_df = Inr sample_engineered \<and>
   sources_ready sample_df ''EC_OC_ratio'' [''EC'', ''OC''] \<and>
   sources_ready sample_df ''CN_ratio'' [''OC'', ''N''] \<and>
   \<not> sources_ready sample_df ''Clay_Sand_ratio'' [''Clay'', ''Sand''] \<and>
   \<not> sources_ready sample_df ''NPK_sum'' [''N'', ''P'', ''K''] \<and>
   \<not> sources_ready sample_df ''log_CaCO3'' [''CaCO3''] \<and>
   \<not> sources_ready sample_df ''Clay_OC_interaction'' [''Clay'', ''OC''] \<and>
   col_names sample_engineered =
     [''pH_H2O'', ''EC'', ''OC'', ''N'', ''LC'', ''EC_OC_ratio'', ''CN_ratio'']"
proof -
  from engineered_iff_sources [OF numeric_sources_sample_df]
  have "\<forall>(f, srcs) \<in> set feature_sources.
        if sources_ready sample_df f srcs then \<exists>v. get_col sample_engineered f = Some (NumCol v)
        else get_col sample_engineered f = get_col sample_df f"
    by (simp add: feature_engineering_sample_df)
  then have "sources_ready sample_df ''EC_OC_ratio'' [''EC'', ''OC'']"
    "sources_ready sample_df ''CN_ratio'' [''OC'', ''N'']"
    "\<not> sources_ready sample_df ''Clay_Sand_ratio'' [''Clay'', ''Sand'']"
    "\<not> sources_ready sample_df ''NPK_sum'' [''N'', ''P'', ''K'']"
    "\<not> sources_ready sample_df ''log_CaCO3'' [''CaCO3'']"
    "\<not> sources_ready sample_df ''Clay_OC_interaction'' [''Clay'', ''OC'']"
    by (simp_all add: sources_ready_def sample_df_def col_names_def)
  then show ?thesis
    using numeric_sources_sample_df feature_engineering_sample_df
    by (simp add: sample_engineered_def col_names_def)
qed

subsection \<open>Ratio features\<close>








subsection \<open>The source columns afterwards\<close>

lemma in_numeric_cols:
  assumes "get_col df c = Some col" and "is_numeric col" and "c \<noteq> target"
  shows "c \<in> set (numeric_cols df)"
proof -
  have "(c, col) \<in> set (columns df)"
    using assms(1) by (simp add: get_col_def map_of_SomeD)
  then show ?thesis
    using assms(2,3) by (force simp: numeric_cols_def)
qed

text \<open>
  C10. Feature engineering leaves the columns \<open>OC\<close>, \<open>Sand\<close> and \<open>N\<close> as they
  are; and when the pipeline returns, each of them that is a numeric column of the table
  is a column of the feature matrix holding the table's own values, zeros included, of the
  rows whose target is present.
\<close>

theorem sources_not_mutated:
  "(\<forall>df df' c. feature_engineering df = Inr df' \<and> c \<in> {''OC'', ''Sand'', ''N''} \<longrightarrow>
      get_col df' c = get_col df c) \<and>
   (\<forall>df out c xs.
      prepare df = Inr out \<and> c \<in> {''OC'', ''Sand'', ''N''} \<and> get_col df c = Some (NumCol xs) \<longrightarrow>
      (\<exists>t. get_col df target = Some t \<and>
         get_col (X_df out) c = Some (NumCol (select (map Not (isna t)) xs))))"
proof (intro conjI allI impI)
  fix df df' c
  assume a: "feature_engineering df = Inr df' \<and> c \<in> {''OC'', ''Sand'', ''N''}"
  then have "c \<notin> set engineered_names" by (auto simp: engineered_names_def)
  with a show "get_col df' c = get_col df c" by (simp add: feature_engineering_frame)
next
  fix df out c xs
  assume a: "prepare df = Inr out \<and> c \<in> {''OC'', ''Sand'', ''N''} \<and>
    get_col df c = Some (NumCol xs)"
  then have ne: "c \<notin> set engineered_names" and nt: "c \<noteq> target"
    by (auto simp: engineered_names_def target_def)
  from a obtain t df2 cs where
    t: "get_col df target = Some t" and
    d2: "feature_engineering (filter_rows (map Not (isna t)) df) = Inr df2" and
    cs: "select_cols df2 (numeric_cols df2 @ filtered_cat_cols df) = Inr cs" and
    out: "out = \<lparr>cat_cols = filtered_cat_cols df, num_cols = numeric_cols df2,
            X_df = \<lparr>index = index df2, columns = cs\<rparr>,
            y_values = col_select (map Not (isna t)) t\<rparr>"
    by (auto elim: prepare_Inr)
  have "get_col df2 c = get_col (filter_rows (map Not (isna t)) df) c"
    using d2 ne by (rule feature_engineering_frame)
  then have g: "get_col df2 c = Some (NumCol (select (map Not (isna t)) xs))"
    using a by (simp add: get_col_filter_rows)
  then have "c \<in> set (numeric_cols df2)"
    using nt by (simp add: in_numeric_cols)
  then have "map_of cs c = Some (NumCol (select (map Not (isna t)) xs))"
    using select_cols_map_of [OF cs, of c] g by simp
  then show "\<exists>t. get_col df target = Some t \<and>
         get_col (X_df out) c = Some (NumCol (select (map Not (isna t)) xs))"
    using t out by (simp add: get_col_def)
qed

theorem sources_not_mutated_witness:
  "prepare sample_df = Inr sample_prepared \<and>
   get_col sample_df ''OC'' = Some (NumCol [Fin 0, Fin 1, Fin 0, Fin 4]) \<and>
   get_col (X_df sample_prepared) ''OC'' = Some (NumCol [Fin 0, Fin 0, Fin 4]) \<and>
   get_col (X_df sample_prepared) ''EC_OC_ratio'' = Some (NumCol [Fin 2000, NaN, Fin (3 / 4)])"
proof -
  have oc: "get_col sample_df ''OC'' = Some (NumCol [Fin 0, Fin 1, Fin 0, Fin 4])"
    by (simp add: sample_df_def get_col_def)
  from sources_not_mutated [THEN conjunct2, rule_format, of sample_df sample_prepared "''OC''"]
    prepare_sample_df oc
  obtain t where "get_col sample_df target = Some t"
    "get_col (X_df sample_prepared) ''OC'' =
       Some (NumCol (select (map Not (isna t)) [Fin 0, Fin 1, Fin 0, Fin 4]))"
    by auto
  then have "get_col (X_df sample_prepared) ''OC'' = Some (NumCol [Fin 0, Fin 0, Fin 4])"
    by (auto simp: sample_df_def get_col_def target_def select_def)
  then show ?thesis
    using prepare_sample_df oc by (simp add: sample_prepared_def get_col_def)
qed

subsection \<open>The layers of the networks\<close>

lemma model_add_Inr:
  "model_add lib l added = Inr out \<longleftrightarrow> accepts_layer lib l \<and> out = added @ [l]"
  by (auto simp: model_add_def)

lemma compile_Inr:
  "compile lib opt lo ms added = Inr m \<longleftrightarrow>
     accepts_optimizer lib opt \<and>
     m = \<lparr>layers = added, optimizer = opt, loss = lo, metrics = ms\<rparr>"
  by (auto simp: compile_def)

lemma hidden_layers_stack:
  assumes "length ns \<le> length rs - i"
    and "\<forall>n \<in> set ns. accepts_layer lib (Dense n (Some a) (Some (L2 l2)) (Some ''he_normal''))"
    and "ns \<noteq> [] \<longrightarrow> accepts_layer lib BatchNormalization"
    and "\<forall>r \<in> set (take (length ns) (drop i rs)). accepts_layer lib (Dropout r)"
  shows "hidden_layers lib i ns rs a l2 added = Inr (added @ dense_stack ns (drop i rs) a l2)"
  using assms
proof (induction ns arbitrary: i added)
  case Nil
  then show ?case by (simp add: dense_stack_def)
next
  case (Cons n ns)
  then have i: "i < length rs" by simp
  then have d: "drop i rs = rs ! i # drop (Suc i) rs" by (simp add: Cons_nth_drop_Suc)
  have ih: "hidden_layers lib (Suc i) ns rs a l2 added' =
      Inr (added' @ dense_stack ns (drop (Suc i) rs) a l2)" for added'
    using Cons.prems by (intro Cons.IH) (simp_all add: d)
  show ?case using Cons.prems i
    by (simp add: ih d dense_stack_def dense_block_def model_add_def)
qed

lemma hidden_layers_returns:
  assumes "hidden_layers lib i ns rs a l2 added = Inr out"
  shows "length ns \<le> length rs - i \<and> out = added @ dense_stack ns (drop i rs) a l2 \<and>
     (\<forall>n \<in> set ns. accepts_layer lib (Dense n (Some a) (Some (L2 l2)) (Some ''he_normal''))) \<and>
     (ns \<noteq> [] \<longrightarrow> accepts_layer lib BatchNormalization) \<and>
     (\<forall>r \<in> set (take (length ns) (drop i rs)). accepts_layer lib (Dropout r))"
  using assms
proof (induction ns arbitrary: i added)
  case Nil
  then show ?case by (simp add: dense_stack_def)
next
  case (Cons n ns)
  let ?dense = "Dense n (Some a) (Some (L2 l2)) (Some ''he_normal'')"
  from Cons.prems have acc: "accepts_layer lib ?dense" "accepts_layer lib BatchNormalization"
    and i: "i < length rs"
    by (auto simp: model_add_def split: if_splits sum.splits)
  with Cons.prems have drop: "accepts_layer lib (Dropout (rs ! i))"
    and rest: "hidden_layers lib (Suc i) ns rs a l2
        (added @ [?dense, BatchNormalization, Dropout (rs ! i)]) = Inr out"
    by (auto simp: model_add_def split: if_splits sum.splits)
  from i have d: "drop i rs = rs ! i # drop (Suc i) rs" by (simp add: Cons_nth_drop_Suc)
  from Cons.IH [OF rest] acc drop i show ?case
    by (auto simp: d dense_stack_def dense_block_def)
qed

lemma hidden_layers_Inr:
  "hidden_layers lib i ns rs a l2 added = Inr out \<longleftrightarrow>
     length ns \<le> length rs - i \<and>
     (\<forall>n \<in> set ns. accepts_layer lib (Dense n (Some a) (Some (L2 l2)) (Some ''he_normal''))) \<and>
     (ns \<noteq> [] \<longrightarrow> accepts_layer lib BatchNormalization) \<and>
     (\<forall>r \<in> set (take (length ns) (drop i rs)). accepts_layer lib (Dropout r)) \<and>
     out = added @ dense_stack ns (drop i rs) a l2"
  using hidden_layers_returns [of lib i ns rs a l2 added out]
    hidden_layers_stack [of ns rs i lib a l2 added]
  by auto

lemma create_model_Inr:
  "create_model lib input_dim ns rs a lr l2 = Inr m \<longleftrightarrow>
     length ns \<le> length rs \<and>
     accepts_layer lib (Input input_dim) \<and>
     (\<forall>n \<in> set ns. accepts_layer lib (Dense n (Some a) (Some (L2 l2)) (Some ''he_normal''))) \<and>
     (ns \<noteq> [] \<longrightarrow> accepts_layer lib BatchNormalization) \<and>
     (\<forall>r \<in> set (take (length ns) rs). accepts_layer lib (Dropout r)) \<and>
     accepts_layer lib (Dense 1 None None None) \<and>
     accepts_optimizer lib (Adam lr) \<and>
     m = \<lparr>layers = Input input_dim # dense_stack ns rs a l2 @ [Dense 1 None None None],
          optimizer = Adam lr, loss = ''mse'', metrics = [''mae'']\<rparr>"
  unfolding create_model_def and_then_Inr model_add_Inr hidden_layers_Inr compile_Inr
  by auto

lemma create_cnn_model_Inr:
  "create_cnn_model lib input_dim ns rs a lr l2 cnn_filters kernel_size = Inr m \<longleftrightarrow>
     length ns \<le> length rs \<and>
     accepts_layer lib (Reshape [input_dim, 1] [input_dim]) \<and>
     accepts_layer lib (Conv1D cnn_filters kernel_size ''same'' a) \<and>
     accepts_layer lib BatchNormalization \<and>
     accepts_layer lib (Conv1D (cnn_filters * 2) kernel_size ''same'' a) \<and>
     accepts_layer lib GlobalAveragePooling1D \<and>
     (\<forall>n \<in> set ns. accepts_layer lib (Dense n (Some a) (Some (L2 l2)) (Some ''he_normal''))) \<and>
     (\<forall>r \<in> set (take (length ns) rs). accepts_layer lib (Dropout r)) \<and>
     accepts_layer lib (Dense 1 None None None) \<and>
     accepts_optimizer lib (Adam lr) \<and>
     m = \<lparr>layers =
            [Reshape [input_dim, 1] [input_dim],
             Conv1D cnn_filters kernel_size ''same'' a, BatchNormalization,
             Conv1D (cnn_filters * 2) kernel_size ''same'' a, BatchNormalization,
             GlobalAveragePooling1D] @ dense_stack ns rs a l2 @ [Dense 1 None None None],
          optimizer = Adam lr, loss = ''mse'', metrics = [''mae'']\<rparr>"
  unfolding create_cnn_model_def and_then_Inr model_add_Inr hidden_layers_Inr compile_Inr
  by auto

text \<open>
  C6 (amended). The dense builder returns a network exactly when there are at least as
  many dropout rates as layer widths and the library's constructors accept the arguments
  (the input of the given size, a Dense layer of each width with the configured
  activation, L2 strength and He-normal initialiser, the batch normalisation, a dropout of
  each rate used, the Dense output layer of one unit, and the optimiser with the learning
  rate). The layers of the network are then the input, for each width in order a Dense
  layer of that width with the configured activation, an L2 penalty of the configured
  strength and the He-normal initialiser, a batch normalisation and a dropout with the
  rate at the same position, and last a Dense layer with one unit and no activation; the
  initialiser is He-normal whatever the activation.
\<close>

theorem create_model_layers:
  "create_model lib input_dim neurons_layers dropout_rates activation learning_rate l2_reg =
     Inr m \<longleftrightarrow>
   length neurons_layers \<le> length dropout_rates \<and>
   accepts_layer lib (Input input_dim) \<and>
   (\<forall>neurons \<in> set neurons_layers.
      accepts_layer lib
        (Dense neurons (Some activation) (Some (L2 l2_reg)) (Some ''he_normal''))) \<and>
   (neurons_layers \<noteq> [] \<longrightarrow> accepts_layer lib BatchNormalization) \<and>
   (\<forall>rate \<in> set (take (length neurons_layers) dropout_rates).
      accepts_layer lib (Dropout rate)) \<and>
   accepts_layer lib (Dense 1 None None None) \<and>
   accepts_optimizer lib (Adam learning_rate) \<and>
   m = \<lparr>layers =
          Input input_dim #
          concat (map (\<lambda>(neurons, rate).
                    [Dense neurons (Some activation) (Some (L2 l2_reg)) (Some ''he_normal''),
                     BatchNormalization, Dropout rate])
                  (zip neurons_layers dropout_rates)) @
          [Dense 1 None None None],
        optimizer = Adam learning_rate, loss = ''mse'', metrics = [''mae'']\<rparr>"
  unfolding create_model_Inr dense_stack_def dense_block_def ..

theorem create_model_layers_witness:
  "length [64, 32 :: int] \<le> length [3 / 10, 1 / 5 :: real] \<and>
   list_all (accepts_layer checking_library)
     [Input 12, Dense 64 (Some ''elu'') (Some (L2 (1 / 2000))) (Some ''he_normal''),
      Dense 32 (Some ''elu'') (Some (L2 (1 / 2000))) (Some ''he_normal''),
      BatchNormalization, Dropout (3 / 10), Dropout (1 / 5), Dense 1 None None None] \<and>
   accepts_optimizer checking_library (Adam (1 / 1000)) \<and>
   create_model checking_library 12 [64, 32] [3 / 10, 1 / 5] ''elu'' (1 / 1000) (1 / 2000) =
     Inr \<lparr>layers =
            [Input 12,
             Dense 64 (Some ''elu'') (Some (L2 (1 / 2000))) (Some ''he_normal''),
             BatchNormalization, Dropout (3 / 10),
             Dense 32 (Some ''elu'') (Some (L2 (1 / 2000))) (Some ''he_normal''),
             BatchNormalization, Dropout (1 / 5),
             Dense 1 None None None],
          optimizer = Adam (1 / 1000), loss = ''mse'', metrics = [''mae'']\<rparr>"
  using create_model_layers [of checking_library 12 "[64, 32]" "[3 / 10, 1 / 5]" "''elu''"
      "1 / 1000" "1 / 2000"
      "\<lparr>layers =
            [Input 12,
             Dense 64 (Some ''elu'') (Some (L2 (1 / 2000))) (Some ''he_normal''),
             BatchNormalization, Dropout (3 / 10),
             Dense 32 (Some ''elu'') (Some (L2 (1 / 2000))) (Some ''he_normal''),
             BatchNormalization, Dropout (1 / 5),
             Dense 1 None None None],
          optimizer = Adam (1 / 1000), loss = ''mse'', metrics = [''mae'']\<rparr>"]
  by (simp add: checking_library_def known_activations_def known_initializers_def)

text \<open>With \<open>selu\<close> the hidden layer is initialised with He-normal, as with \<open>relu\<close>, and
  not with the scheme matched to \<open>selu\<close>.\<close>

theorem create_model_initializer_counterexample:
  "create_model checking_library 4 [8] [1 / 5] ''selu'' (1 / 1000) (1 / 1000) =
     Inr \<lparr>layers =
            [Input 4,
             Dense 8 (Some ''selu'') (Some (L2 (1 / 1000))) (Some ''he_normal''),
             BatchNormalization, Dropout (1 / 5),
             Dense 1 None None None],
          optimizer = Adam (1 / 1000), loss = ''mse'', metrics = [''mae'']\<rparr> \<and>
   spec_matched_initializer ''selu'' \<noteq> ''he_normal''"
  by (simp add: create_model_def and_then_def model_add_def compile_def
      spec_matched_initializer_def checking_library_def known_activations_def
      known_initializers_def)

text \<open>A dropout rate of 1.5, a width of 0 and an unknown activation are refused by the
  checking library, and a missing dropout rate is an IndexError.\<close>

lemma create_model_rejected:
  "create_model checking_library 12 [64] [3 / 2] ''relu'' (1 / 1000) (1 / 1000) = Inl ValueError"
  "create_model checking_library 12 [0] [1 / 5] ''relu'' (1 / 1000) (1 / 1000) = Inl ValueError"
  "create_model checking_library 12 [64] [1 / 5] ''rely'' (1 / 1000) (1 / 1000) = Inl ValueError"
  "create_model checking_library 12 [64, 32] [1 / 5] ''relu'' (1 / 1000) (1 / 1000) = Inl IndexError"
  by (simp_all add: create_model_def model_add_def compile_def and_then_def
      checking_library_def known_activations_def known_initializers_def)

lemma create_cnn_model_rejected:
  "create_cnn_model checking_library 20 [64] [1 / 5] ''relu'' (1 / 1000) (1 / 1000) 0 3 =
     Inl ValueError"
  "create_cnn_model checking_library 20 [64] [1 / 5] ''relu'' (1 / 1000) (1 / 1000) 32 0 =
     Inl ValueError"
  by (simp_all add: create_cnn_model_def model_add_def compile_def and_then_def
      checking_library_def known_activations_def known_initializers_def)

text \<open>
  C7. The convolutional builder returns a network exactly when there are at least as many
  dropout rates as layer widths and the library's constructors accept the arguments (the
  reshape, the two convolutions, the batch normalisation, the pooling, the Dense layer of
  each width, a dropout of each rate used, the Dense output layer and the optimiser). The
  layers of the network are then: the reshape of the flat vector of length \<open>input_dim\<close> to
  \<open>(input_dim, 1)\<close>; a 1D convolution with the configured number of filters and a batch
  normalisation; a 1D convolution with twice that number of filters (more filters, for a
  positive number) and a batch normalisation; global average pooling; then the Dense,
  normalisation and dropout block of each hidden layer and the Dense output layer with one
  unit, which are the layers of the dense builder after its input, whenever the dense
  builder returns a network.
\<close>

theorem create_cnn_model_layers:
  "(create_cnn_model lib input_dim neurons_layers dropout_rates activation learning_rate l2_reg
      cnn_filters kernel_size = Inr m \<longleftrightarrow>
    length neurons_layers \<le> length dropout_rates \<and>
    accepts_layer lib (Reshape [input_dim, 1] [input_dim]) \<and>
    accepts_layer lib (Conv1D cnn_filters kernel_size ''same'' activation) \<and>
    accepts_layer lib BatchNormalization \<and>
    accepts_layer lib (Conv1D (cnn_filters * 2) kernel_size ''same'' activation) \<and>
    accepts_layer lib GlobalAveragePooling1D \<and>
    (\<forall>neurons \<in> set neurons_layers.
       accepts_layer lib
         (Dense neurons (Some activation) (Some (L2 l2_reg)) (Some ''he_normal''))) \<and>
    (\<forall>rate \<in> set (take (length neurons_layers) dropout_rates).
       accepts_layer lib (Dropout rate)) \<and>
    accepts_layer lib (Dense 1 None None None) \<and>
    accepts_optimizer lib (Adam learning_rate) \<and>
    m = \<lparr>layers =
           [Reshape [input_dim, 1] [input_dim],
            Conv1D cnn_filters kernel_size ''same'' activation, BatchNormalization,
            Conv1D (cnn_filters * 2) kernel_size ''same'' activation, BatchNormalization,
            GlobalAveragePooling1D] @
           concat (map (\<lambda>(neurons, rate).
                     [Dense neurons (Some activation) (Some (L2 l2_reg)) (Some ''he_normal''),
                      BatchNormalization, Dropout rate])
                   (zip neurons_layers dropout_rates)) @
           [Dense 1 None None None],
         optimizer = Adam learning_rate, loss = ''mse'', metrics = [''mae'']\<rparr>) \<and>
   (\<forall>d. create_model lib input_dim neurons_layers dropout_rates activation learning_rate
           l2_reg = Inr d \<longrightarrow>
      tl (layers d) =
        concat (map (\<lambda>(neurons, rate).
                  [Dense neurons (Some activation) (Some (L2 l2_reg)) (Some ''he_normal''),
                   BatchNormalization, Dropout rate])
                (zip neurons_layers dropout_rates)) @
        [Dense 1 None None None]) \<and>
   (0 < cnn_filters \<longrightarrow> cnn_filters < cnn_filters * 2)"
proof -
  have "tl (layers d) =
      dense_stack neurons_layers dropout_rates activation l2_reg @ [Dense 1 None None None]"
    if "create_model lib input_dim neurons_layers dropout_rates activation learning_rate
          l2_reg = Inr d" for d
    using that unfolding create_model_Inr by simp
  then show ?thesis
    unfolding create_cnn_model_Inr dense_stack_def dense_block_def by simp
qed

theorem create_cnn_model_layers_witness:
  "length [256, 128, 64, 32 :: int] \<le> length [1 / 2, 2 / 5, 3 / 10, 1 / 5 :: real] \<and>
   list_all (accepts_layer checking_library)
     [Reshape [20, 1] [20], Conv1D 32 3 ''same'' ''elu'', Conv1D 64 3 ''same'' ''elu'',
      GlobalAveragePooling1D, BatchNormalization, Dense 1 None None None] \<and>
   list_all (\<lambda>neurons. accepts_layer checking_library
       (Dense neurons (Some ''elu'') (Some (L2 (1 / 2000))) (Some ''he_normal'')))
     [256, 128, 64, 32] \<and>
   list_all (\<lambda>rate. accepts_layer checking_library (Dropout rate))
     [1 / 2, 2 / 5, 3 / 10, 1 / 5] \<and>
   accepts_optimizer checking_library (Adam (1 / 2000)) \<and>
   (\<exists>m. create_cnn_model checking_library 20 [256, 128, 64, 32] [1 / 2, 2 / 5, 3 / 10, 1 / 5]
          ''elu'' (1 / 2000) (1 / 2000) 32 3 = Inr m \<and>
      take 7 (layers m) =
        [Reshape [20, 1] [20], Conv1D 32 3 ''same'' ''elu'', BatchNormalization,
         Conv1D 64 3 ''same'' ''elu'', BatchNormalization, GlobalAveragePooling1D,
         Dense 256 (Some ''elu'') (Some (L2 (1 / 2000))) (Some ''he_normal'')] \<and>
      length (layers m) = 19)"
  using create_cnn_model_layers [of checking_library 20 "[256, 128, 64, 32]"
      "[1 / 2, 2 / 5, 3 / 10, 1 / 5]" "''elu''" "1 / 2000" "1 / 2000" 32 3]
  by (simp add: checking_library_def known_activations_def known_initializers_def)

subsection \<open>The search\<close>

lemma suggest_layers_maps:
  "suggest_layers t is ns ds =
     (ns @ map (\<lambda>i. suggest_int t (''n_units_l'' @ string_of_nat i) 16 512) is,
      ds @ map (\<lambda>i. suggest_float t (''dropout_l'' @ string_of_nat i) (1 / 10) (1 / 2) False) is)"
  by (induction "is" arbitrary: ns ds) simp_all

lemma suggest_hyperparameters_fields:
  "p_n_layers (suggest_hyperparameters t) = suggest_int t ''n_layers'' 1 5"
  "p_neurons_layers (suggest_hyperparameters t) =
     map (\<lambda>i. suggest_int t (''n_units_l'' @ string_of_nat i) 16 512)
       [0..<nat (suggest_int t ''n_layers'' 1 5)]"
  "p_dropout_rates (suggest_hyperparameters t) =
     map (\<lambda>i. suggest_float t (''dropout_l'' @ string_of_nat i) (1 / 10) (1 / 2) False)
       [0..<nat (suggest_int t ''n_layers'' 1 5)]"
  "p_activation (suggest_hyperparameters t) =
     suggest_categorical_str t ''activation'' [''relu'', ''elu'', ''selu'']"
  "p_learning_rate (suggest_hyperparameters t) =
     suggest_float t ''learning_rate'' (1 / 100000) (1 / 100) True"
  "p_l2_reg (suggest_hyperparameters t) = suggest_float t ''l2_reg'' (1 / 1000000) (1 / 1000) True"
  "p_batch_size (suggest_hyperparameters t) =
     suggest_categorical_int t ''batch_size'' [16, 32, 64, 128]"
  by (simp_all add: suggest_hyperparameters_def Let_def suggest_layers_maps)

lemma suggest_in_ranges:
  assumes "valid_trial t"
  shows "in_declared_ranges (suggest_hyperparameters t)"
proof -
  have i: "low \<le> suggest_int t name low high \<and> suggest_int t name low high \<le> high"
    if "low \<le> high" for name low high
    using assms that by (simp add: valid_trial_def)
  have f: "low \<le> suggest_float t name low high lg \<and> suggest_float t name low high lg \<le> high"
    if "low \<le> high" for name low high lg
    using assms that by (simp add: valid_trial_def)
  have s: "suggest_categorical_str t name choices \<in> set choices" if "choices \<noteq> []"
    for name choices
    using assms that by (simp add: valid_trial_def)
  have c: "suggest_categorical_int t name choices \<in> set choices" if "choices \<noteq> []"
    for name choices
    using assms that by (simp add: valid_trial_def)
  show ?thesis
    unfolding in_declared_ranges_def suggest_hyperparameters_fields
    using i [of 1 5 "''n_layers''"] i [of 16 512] f [of "1 / 10" "1 / 2"]
      f [of "1 / 100000" "1 / 100" "''learning_rate''" True]
      f [of "1 / 1000000" "1 / 1000" "''l2_reg''" True]
      s [of "[''relu'', ''elu'', ''selu'']" "''activation''"]
      c [of "[16, 32, 64, 128]" "''batch_size''"]
    by (simp add: list_all_iff)
qed

lemma fless_trans: "fless a b \<Longrightarrow> fless b c \<Longrightarrow> fless a c"
  by (cases a; cases b; cases c) simp_all

lemma fless_not_NaN: "fless a b \<Longrightarrow> a \<noteq> NaN \<and> b \<noteq> NaN"
  by (cases a; cases b) simp_all

lemma fless_chain: "\<not> fless a m \<Longrightarrow> \<not> fless m r \<Longrightarrow> m \<noteq> NaN \<Longrightarrow> \<not> fless a r"
  by (cases a; cases m; cases r) simp_all

lemma fold_min_mem:
  "fold (\<lambda>t b. if fless (key t) (key b) then t else b) xs b \<in> set (b # xs)"
proof (induction xs arbitrary: b)
  case Nil
  then show ?case by simp
next
  case (Cons a xs)
  from Cons [of "if fless (key a) (key b) then a else b"] show ?case
    by (auto split: if_splits)
qed

lemma fold_min_NaN:
  "key b = NaN \<Longrightarrow> fold (\<lambda>t b. if fless (key t) (key b) then t else b) xs b = b"
proof (induction xs)
  case Nil
  then show ?case by simp
next
  case (Cons a xs)
  from Cons.prems have "\<not> fless (key a) (key b)" using fless_not_NaN by blast
  with Cons show ?case by simp
qed

lemma fold_min_least:
  assumes "key b \<noteq> NaN"
  shows "key (fold (\<lambda>t b. if fless (key t) (key b) then t else b) xs b) \<noteq> NaN \<and>
     \<not> fless (key b) (key (fold (\<lambda>t b. if fless (key t) (key b) then t else b) xs b)) \<and>
     (\<forall>x \<in> set xs.
        \<not> fless (key x) (key (fold (\<lambda>t b. if fless (key t) (key b) then t else b) xs b)))"
  using assms
proof (induction xs arbitrary: b)
  case Nil
  then show ?case by (cases "key b") simp_all
next
  case (Cons a xs)
  let ?f = "\<lambda>t b. if fless (key t) (key b) then t else b"
  let ?b = "if fless (key a) (key b) then a else b"
  let ?r = "fold ?f xs ?b"
  have nb: "key ?b \<noteq> NaN" using Cons.prems fless_not_NaN by auto
  from Cons.IH [OF nb] have r: "key ?r \<noteq> NaN" "\<not> fless (key ?b) (key ?r)"
    "\<forall>x \<in> set xs. \<not> fless (key x) (key ?r)"
    by blast+
  have b: "\<not> fless (key b) (key ?r)"
  proof (cases "fless (key a) (key b)")
    case True
    with r(2) show ?thesis using fless_trans by auto
  next
    case False
    with r(2) show ?thesis by simp
  qed
  have a: "\<not> fless (key a) (key ?r)"
  proof (cases "fless (key a) (key b)")
    case True
    with r(2) show ?thesis by simp
  next
    case False
    from fless_chain [OF False b Cons.prems] show ?thesis .
  qed
  have "fold ?f (a # xs) b = ?r" by simp
  with r a b show ?case by (simp del: fold_simps)
qed

lemma py_min_first:
  assumes "h \<noteq> []"
  shows "\<exists>v. py_min h = Inr v \<and> v \<in> set h \<and> (\<forall>x \<in> set h. \<not> fless x v) \<and>
     (v = NaN \<longleftrightarrow> hd h = NaN)"
proof (cases h)
  case Nil
  with assms show ?thesis by simp
next
  case (Cons x xs)
  let ?v = "fold (\<lambda>v m. if fless v m then v else m) xs x"
  have m: "?v \<in> set (x # xs)" using fold_min_mem [of "\<lambda>v. v" xs x] by simp
  show ?thesis
  proof (cases "x = NaN")
    case True
    then have "?v = NaN" using fold_min_NaN [of "\<lambda>v. v" x xs] by simp
    moreover have "\<not> fless y NaN" for y using fless_not_NaN by blast
    ultimately show ?thesis using Cons True by simp
  next
    case False
    from fold_min_least [of "\<lambda>v. v" x xs] False
    have "?v \<noteq> NaN" "\<not> fless x ?v" "\<forall>y \<in> set xs. \<not> fless y ?v" by simp_all
    with m show ?thesis using Cons False by simp
  qed
qed

lemma create_model_declared:
  assumes "accepts_declared lib input_dim" and "in_declared_ranges hp"
  shows "\<exists>m. create_model lib input_dim (p_neurons_layers hp) (p_dropout_rates hp)
           (p_activation hp) (p_learning_rate hp) (p_l2_reg hp) = Inr m"
proof -
  have "\<forall>n \<in> set (p_neurons_layers hp). accepts_layer lib
        (Dense n (Some (p_activation hp)) (Some (L2 (p_l2_reg hp))) (Some ''he_normal''))"
    using assms by (simp add: in_declared_ranges_def accepts_declared_def list_all_iff)
  moreover have "\<forall>r \<in> set (take (length (p_neurons_layers hp)) (p_dropout_rates hp)).
        accepts_layer lib (Dropout r)"
    using assms by (simp add: in_declared_ranges_def accepts_declared_def list_all_iff)
  moreover have "length (p_neurons_layers hp) \<le> length (p_dropout_rates hp)"
    using assms(2) by (simp add: in_declared_ranges_def)
  moreover have "accepts_layer lib (Input input_dim)" "accepts_layer lib BatchNormalization"
    "accepts_layer lib (Dense 1 None None None)"
    "accepts_optimizer lib (Adam (p_learning_rate hp))"
    using assms by (simp_all add: in_declared_ranges_def accepts_declared_def)
  ultimately show ?thesis
    unfolding create_model_Inr by blast
qed

lemma objective_Inr:
  "objective lib d fit t = Inr (hp, v) \<longleftrightarrow>
     hp = suggest_hyperparameters t \<and>
     (\<exists>m. create_model lib d (p_neurons_layers hp) (p_dropout_rates hp) (p_activation hp)
            (p_learning_rate hp) (p_l2_reg hp) = Inr m \<and>
          py_min (fit m (p_batch_size hp)) = Inr v)"
  by (auto simp: objective_def Let_def split: sum.splits)

lemma objective_returns:
  assumes "valid_trial t" and "\<And>m b. fit m b \<noteq> []" and "accepts_declared lib d"
  shows "\<exists>hp v. objective lib d fit t = Inr (hp, v)"
proof -
  let ?hp = "suggest_hyperparameters t"
  have "in_declared_ranges ?hp" using assms(1) by (rule suggest_in_ranges)
  from create_model_declared [OF assms(3) this] obtain m where
    m: "create_model lib d (p_neurons_layers ?hp) (p_dropout_rates ?hp) (p_activation ?hp)
          (p_learning_rate ?hp) (p_l2_reg ?hp) = Inr m"
    by blast
  from py_min_first [OF assms(2)] obtain v where "py_min (fit m (p_batch_size ?hp)) = Inr v"
    by blast
  with m have "objective lib d fit t = Inr (?hp, v)"
    unfolding objective_Inr by blast
  then show ?thesis by blast
qed

lemma optimize_trials:
  assumes step: "\<And>k tr. \<exists>hp v. obj k (sampler tr) = Inr (hp, v)"
  shows "\<exists>ts. optimize sampler obj n trials = Inr ts \<and> length ts = length trials + n \<and>
     take (length trials) ts = trials \<and>
     (\<forall>k. length trials \<le> k \<and> k < length ts \<longrightarrow>
        (\<exists>hp v. obj k (sampler (take k ts)) = Inr (hp, v) \<and>
           ts ! k = \<lparr>t_number = k, t_params = hp,
                     t_value = (if v = NaN then None else Some v)\<rparr>))"
proof (induction n arbitrary: trials)
  case 0
  then show ?case by auto
next
  case (Suc n)
  let ?l = "length trials"
  from step [of ?l trials] obtain hp v where o: "obj ?l (sampler trials) = Inr (hp, v)"
    by blast
  let ?T = "\<lparr>t_number = ?l, t_params = hp, t_value = (if v = NaN then None else Some v)\<rparr>"
  from Suc [of "trials @ [?T]"] obtain ts where
    ts: "optimize sampler obj n (trials @ [?T]) = Inr ts"
    and len: "length ts = Suc ?l + n"
    and pre: "take (Suc ?l) ts = trials @ [?T]"
    and rest: "\<forall>k. Suc ?l \<le> k \<and> k < length ts \<longrightarrow>
        (\<exists>hp v. obj k (sampler (take k ts)) = Inr (hp, v) \<and>
           ts ! k = \<lparr>t_number = k, t_params = hp,
                     t_value = (if v = NaN then None else Some v)\<rparr>)"
    by auto
  have "take ?l ts = take ?l (take (Suc ?l) ts)" by simp
  then have pre': "take ?l ts = trials" unfolding pre by simp
  have "ts ! ?l = take (Suc ?l) ts ! ?l" by simp
  then have at: "ts ! ?l = ?T" unfolding pre by simp
  have here: "\<exists>hp v. obj ?l (sampler (take ?l ts)) = Inr (hp, v) \<and>
      ts ! ?l = \<lparr>t_number = ?l, t_params = hp, t_value = (if v = NaN then None else Some v)\<rparr>"
    using o at pre' by simp
  have all: "\<forall>k. ?l \<le> k \<and> k < length ts \<longrightarrow>
        (\<exists>hp v. obj k (sampler (take k ts)) = Inr (hp, v) \<and>
           ts ! k = \<lparr>t_number = k, t_params = hp,
                     t_value = (if v = NaN then None else Some v)\<rparr>)"
  proof (intro allI impI)
    fix k
    assume k: "?l \<le> k \<and> k < length ts"
    show "\<exists>hp v. obj k (sampler (take k ts)) = Inr (hp, v) \<and>
           ts ! k = \<lparr>t_number = k, t_params = hp,
                     t_value = (if v = NaN then None else Some v)\<rparr>"
    proof (cases "k = ?l")
      case True
      with here show ?thesis by simp
    next
      case False
      with k have "Suc ?l \<le> k \<and> k < length ts" by simp
      with rest show ?thesis by blast
    qed
  qed
  have "optimize sampler obj (Suc n) trials = Inr ts" using o ts by simp
  with len pre' all show ?case by simp
qed

lemma best_trial_none:
  assumes "\<forall>t \<in> set ts. t_value t = None"
  shows "best_trial ts = Inl ValueError"
proof -
  from assms have "filter (\<lambda>t. t_value t \<noteq> None) ts = []"
    by (simp add: filter_empty_conv)
  then show ?thesis by (simp add: best_trial_def)
qed

lemma best_trial_min:
  assumes some: "\<not> (\<forall>t \<in> set ts. t_value t = None)"
    and nan: "\<forall>t \<in> set ts. t_value t \<noteq> Some NaN"
  shows "\<exists>b v. best_trial ts = Inr b \<and> b \<in> set ts \<and> t_value b = Some v \<and>
     (\<forall>t \<in> set ts. \<forall>w. t_value t = Some w \<longrightarrow> \<not> fless w v)"
proof -
  let ?cs = "filter (\<lambda>t. t_value t \<noteq> None) ts"
  let ?f = "\<lambda>t b. if fless (score t) (score b) then t else b"
  from some have "?cs \<noteq> []" by (simp add: filter_empty_conv)
  then obtain c cs where cs: "?cs = c # cs" by (cases ?cs) auto
  let ?b = "fold ?f cs c"
  have best: "best_trial ts = Inr ?b" unfolding best_trial_def cs by simp
  have "?b \<in> set (c # cs)" by (rule fold_min_mem)
  then have mem: "?b \<in> set ?cs" by (simp only: cs)
  then have b: "?b \<in> set ts" "t_value ?b \<noteq> None" by simp_all
  then obtain v where v: "t_value ?b = Some v" by blast
  have "c \<in> set ?cs" unfolding cs by simp
  then have c: "c \<in> set ts" "t_value c \<noteq> None" by simp_all
  with nan have "score c \<noteq> NaN" by (auto simp: score_def split: option.splits)
  from fold_min_least [of score c cs, OF this]
  have least: "\<forall>x \<in> set (c # cs). \<not> fless (score x) (score ?b)"
    by simp
  have "\<not> fless w v" if "t \<in> set ts" and "t_value t = Some w" for t w
  proof -
    from that have "t \<in> set ?cs" by simp
    then have "t \<in> set (c # cs)" by (simp only: cs)
    with least have "\<not> fless (score t) (score ?b)" by blast
    then show ?thesis using that(2) v by (simp add: score_def)
  qed
  with best b(1) v show ?thesis by blast
qed

text \<open>
  C5. Whatever trial objects the library hands out, as long as their suggestions respect
  the range or the choices asked for, whatever non-empty validation histories the training
  runs give, and with a library that accepts the layers of the configurations in the
  declared ranges: the search runs 50 trials. The configuration of trial \<open>k\<close> is what the
  trial object, made from the trials before it, suggests: the number of layers for
  \<open>n_layers\<close> in 1 to 5; for each layer \<open>i\<close> below that number a width for \<open>n_units_l<i>\<close>
  in 16 to 512 and a dropout rate for \<open>dropout_l<i>\<close> in 0.1 to 0.5, not on the log scale;
  the activation for \<open>activation\<close> among relu, elu and selu; the learning rate for
  \<open>learning_rate\<close> in 1e-5 to 1e-2 and the L2 strength for \<open>l2_reg\<close> in 1e-6 to 1e-3, both
  on the log scale; the batch size for \<open>batch_size\<close> among 16, 32, 64 and 128; so it lies
  in the declared ranges. The value of the objective is an entry of the validation history
  of the training run of the model built from the configuration, no entry is less than it,
  and it is NaN only when the history starts with NaN; a trial with the value NaN is
  recorded as failed, without a score, any other value is the trial's score. When some
  trial has a score, the best trial is one of the trials and no trial has a score less
  than its score; when none has, asking for the best trial raises ValueError.
\<close>

theorem search_keeps_best:
  assumes "\<And>trials. valid_trial (sampler trials)"
    and "\<And>k m batch_size. fits k m batch_size \<noteq> []"
    and "accepts_declared lib input_dim"
  shows "\<exists>trials.
     optimize sampler (\<lambda>k. objective lib input_dim (fits k)) 50 [] = Inr trials \<and>
     length trials = 50 \<and>
     (\<forall>k<50.
        let t = sampler (take k trials); hp = t_params (trials ! k) in
        t_number (trials ! k) = k \<and>
        p_n_layers hp = suggest_int t ''n_layers'' 1 5 \<and>
        p_neurons_layers hp =
          map (\<lambda>i. suggest_int t (''n_units_l'' @ string_of_nat i) 16 512)
            [0..<nat (p_n_layers hp)] \<and>
        p_dropout_rates hp =
          map (\<lambda>i. suggest_float t (''dropout_l'' @ string_of_nat i) (1 / 10) (1 / 2) False)
            [0..<nat (p_n_layers hp)] \<and>
        p_activation hp = suggest_categorical_str t ''activation'' [''relu'', ''elu'', ''selu''] \<and>
        p_learning_rate hp = suggest_float t ''learning_rate'' (1 / 100000) (1 / 100) True \<and>
        p_l2_reg hp = suggest_float t ''l2_reg'' (1 / 1000000) (1 / 1000) True \<and>
        p_batch_size hp = suggest_categorical_int t ''batch_size'' [16, 32, 64, 128] \<and>
        in_declared_ranges hp \<and>
        (\<exists>m v. create_model lib input_dim (p_neurons_layers hp) (p_dropout_rates hp)
                 (p_activation hp) (p_learning_rate hp) (p_l2_reg hp) = Inr m \<and>
           v \<in> set (fits k m (p_batch_size hp)) \<and>
           (\<forall>x \<in> set (fits k m (p_batch_size hp)). \<not> fless x v) \<and>
           (v = NaN \<longleftrightarrow> hd (fits k m (p_batch_size hp)) = NaN) \<and>
           t_value (trials ! k) = (if v = NaN then None else Some v))) \<and>
     (if \<forall>t \<in> set trials. t_value t = None
      then run_search lib input_dim fits sampler = Inl ValueError
      else \<exists>best v. run_search lib input_dim fits sampler = Inr (trials, best) \<and>
             best \<in> set trials \<and> t_value best = Some v \<and>
             (\<forall>t \<in> set trials. \<forall>w. t_value t = Some w \<longrightarrow> \<not> fless w v))"
proof -
  let ?obj = "\<lambda>k. objective lib input_dim (fits k)"
  have step: "\<exists>hp v. ?obj k (sampler tr) = Inr (hp, v)" for k tr
    using assms(1) [of tr] assms(2) [of k] assms(3) by (rule objective_returns)
  from optimize_trials [where obj = ?obj and sampler = sampler and n = 50 and trials = "[]",
      OF step]
  obtain ts where ts: "optimize sampler ?obj 50 [] = Inr ts" and len: "length ts = 50"
    and each: "\<forall>k. k < length ts \<longrightarrow>
        (\<exists>hp v. ?obj k (sampler (take k ts)) = Inr (hp, v) \<and>
           ts ! k = \<lparr>t_number = k, t_params = hp,
                     t_value = (if v = NaN then None else Some v)\<rparr>)"
    by auto
  have trial: "let t = sampler (take k ts); hp = t_params (ts ! k) in
        t_number (ts ! k) = k \<and>
        p_n_layers hp = suggest_int t ''n_layers'' 1 5 \<and>
        p_neurons_layers hp =
          map (\<lambda>i. suggest_int t (''n_units_l'' @ string_of_nat i) 16 512)
            [0..<nat (p_n_layers hp)] \<and>
        p_dropout_rates hp =
          map (\<lambda>i. suggest_float t (''dropout_l'' @ string_of_nat i) (1 / 10) (1 / 2) False)
            [0..<nat (p_n_layers hp)] \<and>
        p_activation hp = suggest_categorical_str t ''activation'' [''relu'', ''elu'', ''selu''] \<and>
        p_learning_rate hp = suggest_float t ''learning_rate'' (1 / 100000) (1 / 100) True \<and>
        p_l2_reg hp = suggest_float t ''l2_reg'' (1 / 1000000) (1 / 1000) True \<and>
        p_batch_size hp = suggest_categorical_int t ''batch_size'' [16, 32, 64, 128] \<and>
        in_declared_ranges hp \<and>
        (\<exists>m v. create_model lib input_dim (p_neurons_layers hp) (p_dropout_rates hp)
                 (p_activation hp) (p_learning_rate hp) (p_l2_reg hp) = Inr m \<and>
           v \<in> set (fits k m (p_batch_size hp)) \<and>
           (\<forall>x \<in> set (fits k m (p_batch_size hp)). \<not> fless x v) \<and>
           (v = NaN \<longleftrightarrow> hd (fits k m (p_batch_size hp)) = NaN) \<and>
           t_value (ts ! k) = (if v = NaN then None else Some v))"
    if k: "k < 50" for k
  proof -
    let ?t = "sampler (take k ts)"
    from each k len obtain hp v where o: "?obj k ?t = Inr (hp, v)"
      and at: "ts ! k = \<lparr>t_number = k, t_params = hp,
                          t_value = (if v = NaN then None else Some v)\<rparr>"
      by auto
    from o have hp: "hp = suggest_hyperparameters ?t" unfolding objective_Inr by blast
    from o obtain m where
      m: "create_model lib input_dim (p_neurons_layers hp) (p_dropout_rates hp) (p_activation hp)
            (p_learning_rate hp) (p_l2_reg hp) = Inr m"
      and pm: "py_min (fits k m (p_batch_size hp)) = Inr v"
      unfolding objective_Inr by blast
    from py_min_first [OF assms(2) [of k m "p_batch_size hp"]] pm
    have v: "v \<in> set (fits k m (p_batch_size hp))"
      "\<forall>x \<in> set (fits k m (p_batch_size hp)). \<not> fless x v"
      "v = NaN \<longleftrightarrow> hd (fits k m (p_batch_size hp)) = NaN"
      by auto
    have r: "in_declared_ranges hp" unfolding hp using assms(1) by (rule suggest_in_ranges)
    have score: "\<exists>m v. create_model lib input_dim (p_neurons_layers hp) (p_dropout_rates hp)
                 (p_activation hp) (p_learning_rate hp) (p_l2_reg hp) = Inr m \<and>
           v \<in> set (fits k m (p_batch_size hp)) \<and>
           (\<forall>x \<in> set (fits k m (p_batch_size hp)). \<not> fless x v) \<and>
           (v = NaN \<longleftrightarrow> hd (fits k m (p_batch_size hp)) = NaN) \<and>
           t_value (ts ! k) = (if v = NaN then None else Some v)"
      using m v at by (intro exI [of _ m] exI [of _ v]) simp
    have tp: "t_params (ts ! k) = hp" "t_number (ts ! k) = k" using at by simp_all
    show ?thesis
      unfolding Let_def tp
      using r score [unfolded tp] suggest_hyperparameters_fields [of ?t, folded hp]
      by simp
  qed
  have nan: "\<forall>t \<in> set ts. t_value t \<noteq> Some NaN"
  proof
    fix t
    assume "t \<in> set ts"
    then obtain k where k: "k < length ts" "t = ts ! k" by (auto simp: in_set_conv_nth)
    with each obtain hp v where
      "ts ! k = \<lparr>t_number = k, t_params = hp, t_value = (if v = NaN then None else Some v)\<rparr>"
      by blast
    with k(2) show "t_value t \<noteq> Some NaN" by (cases "v = NaN") simp_all
  qed
  have best: "if \<forall>t \<in> set ts. t_value t = None
      then run_search lib input_dim fits sampler = Inl ValueError
      else \<exists>best v. run_search lib input_dim fits sampler = Inr (ts, best) \<and>
             best \<in> set ts \<and> t_value best = Some v \<and>
             (\<forall>t \<in> set ts. \<forall>w. t_value t = Some w \<longrightarrow> \<not> fless w v)"
  proof (cases "\<forall>t \<in> set ts. t_value t = None")
    case True
    from best_trial_none [OF True] have "run_search lib input_dim fits sampler = Inl ValueError"
      using ts by (simp add: run_search_def)
    with True show ?thesis by simp
  next
    case False
    from best_trial_min [OF False nan] obtain b v where
      b: "best_trial ts = Inr b" "b \<in> set ts" "t_value b = Some v"
      "\<forall>t \<in> set ts. \<forall>w. t_value t = Some w \<longrightarrow> \<not> fless w v"
      by blast
    have "run_search lib input_dim fits sampler = Inr (ts, b)"
      using ts b(1) by (simp add: run_search_def)
    with b False show ?thesis by (simp only: if_False) blast
  qed
  from ts len trial best show ?thesis by blast
qed

lemma length_dense_stack:
  "length (dense_stack ns rs a l2) = 3 * min (length ns) (length rs)"
proof (induction ns arbitrary: rs)
  case Nil
  then show ?case by (simp add: dense_stack_def)
next
  case (Cons n ns)
  then show ?case by (cases rs) (simp_all add: dense_stack_def dense_block_def)
qed

theorem search_keeps_best_witness:
  "(\<forall>trials. valid_trial (stepping_sampler trials)) \<and>
   (\<forall>k m batch_size. sample_fits k m batch_size \<noteq> []) \<and>
   accepts_declared checking_library 10 \<and>
   (\<exists>trials best.
      run_search checking_library 10 sample_fits stepping_sampler = Inr (trials, best) \<and>
      length trials = 50 \<and>
      p_n_layers (t_params (trials ! 0)) = 1 \<and> t_value (trials ! 0) = Some (Fin 15) \<and>
      p_n_layers (t_params (trials ! 1)) = 2 \<and> t_value (trials ! 1) = None \<and>
      p_n_layers (t_params (trials ! 2)) = 3 \<and> t_value (trials ! 2) = Some (Fin 9) \<and>
      p_n_layers (t_params (trials ! 49)) = 5 \<and> t_value (trials ! 49) = Some (Fin 3) \<and>
      best \<in> set trials \<and> t_value best = Some (Fin 3))"
proof -
  have valid: "valid_trial (stepping_sampler trials)" for trials
    by (simp add: valid_trial_def stepping_sampler_def stepping_trial_def)
  have nonempty: "sample_fits k m batch_size \<noteq> []" for k m batch_size
    by (simp add: sample_fits_def)
  have accepts: "accepts_declared checking_library 10"
    by (auto simp: accepts_declared_def checking_library_def known_activations_def
        known_initializers_def)
  from search_keeps_best [of stepping_sampler sample_fits checking_library 10,
      OF valid nonempty accepts]
  obtain trials where len: "length trials = 50"
    and each: "\<forall>k<50.
        let t = stepping_sampler (take k trials); hp = t_params (trials ! k) in
        t_number (trials ! k) = k \<and>
        p_n_layers hp = suggest_int t ''n_layers'' 1 5 \<and>
        p_neurons_layers hp =
          map (\<lambda>i. suggest_int t (''n_units_l'' @ string_of_nat i) 16 512)
            [0..<nat (p_n_layers hp)] \<and>
        p_dropout_rates hp =
          map (\<lambda>i. suggest_float t (''dropout_l'' @ string_of_nat i) (1 / 10) (1 / 2) False)
            [0..<nat (p_n_layers hp)] \<and>
        p_activation hp = suggest_categorical_str t ''activation'' [''relu'', ''elu'', ''selu''] \<and>
        p_learning_rate hp = suggest_float t ''learning_rate'' (1 / 100000) (1 / 100) True \<and>
        p_l2_reg hp = suggest_float t ''l2_reg'' (1 / 1000000) (1 / 1000) True \<and>
        p_batch_size hp = suggest_categorical_int t ''batch_size'' [16, 32, 64, 128] \<and>
        in_declared_ranges hp \<and>
        (\<exists>m v. create_model checking_library 10 (p_neurons_layers hp) (p_dropout_rates hp)
                 (p_activation hp) (p_learning_rate hp) (p_l2_reg hp) = Inr m \<and>
           v \<in> set (sample_fits k m (p_batch_size hp)) \<and>
           (\<forall>x \<in> set (sample_fits k m (p_batch_size hp)). \<not> fless x v) \<and>
           (v = NaN \<longleftrightarrow> hd (sample_fits k m (p_batch_size hp)) = NaN) \<and>
           t_value (trials ! k) = (if v = NaN then None else Some v))"
    and best: "if \<forall>t \<in> set trials. t_value t = None
      then run_search checking_library 10 sample_fits stepping_sampler = Inl ValueError
      else \<exists>best v. run_search checking_library 10 sample_fits stepping_sampler =
               Inr (trials, best) \<and>
             best \<in> set trials \<and> t_value best = Some v \<and>
             (\<forall>t \<in> set trials. \<forall>w. t_value t = Some w \<longrightarrow> \<not> fless w v)"
    by blast
  have val: "p_n_layers (t_params (trials ! k)) = min 5 (1 + int k) \<and>
      t_value (trials ! k) =
        (if k = 1 then None else Some (Fin (18 - 3 * real_of_int (min 5 (1 + int k)))))"
    if k: "k < 50" for k
  proof -
    let ?hp = "t_params (trials ! k)"
    from each k have
      n: "p_n_layers ?hp = suggest_int (stepping_sampler (take k trials)) ''n_layers'' 1 5"
      and r: "in_declared_ranges ?hp"
      and s: "\<exists>m v. create_model checking_library 10 (p_neurons_layers ?hp) (p_dropout_rates ?hp)
                 (p_activation ?hp) (p_learning_rate ?hp) (p_l2_reg ?hp) = Inr m \<and>
           v \<in> set (sample_fits k m (p_batch_size ?hp)) \<and>
           (\<forall>x \<in> set (sample_fits k m (p_batch_size ?hp)). \<not> fless x v) \<and>
           (v = NaN \<longleftrightarrow> hd (sample_fits k m (p_batch_size ?hp)) = NaN) \<and>
           t_value (trials ! k) = (if v = NaN then None else Some v)"
      unfolding Let_def by blast+
    have n': "p_n_layers ?hp = min 5 (1 + int k)"
      using n k len by (simp add: stepping_sampler_def stepping_trial_def)
    from s obtain m v where
      m: "create_model checking_library 10 (p_neurons_layers ?hp) (p_dropout_rates ?hp)
            (p_activation ?hp) (p_learning_rate ?hp) (p_l2_reg ?hp) = Inr m"
      and v: "v \<in> set (sample_fits k m (p_batch_size ?hp))"
        "\<forall>x \<in> set (sample_fits k m (p_batch_size ?hp)). \<not> fless x v"
        "v = NaN \<longleftrightarrow> hd (sample_fits k m (p_batch_size ?hp)) = NaN"
      and tv: "t_value (trials ! k) = (if v = NaN then None else Some v)"
      by blast
    from r have lens: "length (p_neurons_layers ?hp) = nat (p_n_layers ?hp)"
      "length (p_dropout_rates ?hp) = nat (p_n_layers ?hp)" "1 \<le> p_n_layers ?hp"
      by (simp_all add: in_declared_ranges_def)
    from m have "length (layers m) = 3 * nat (p_n_layers ?hp) + 2"
      unfolding create_model_Inr by (simp add: length_dense_stack lens)
    then have L: "real (length (layers m)) = 3 * real_of_int (min 5 (1 + int k)) + 2"
      using lens(3) n' by simp
    show ?thesis
    proof (cases "k = 1")
      case True
      with v(3) have "v = NaN" by (simp add: sample_fits_def)
      with tv n' True show ?thesis by simp
    next
      case False
      with v(3) have nn: "v \<noteq> NaN" by (simp add: sample_fits_def)
      from v(1) False nn have "v = Fin 20 \<or> v = Fin (20 - real (length (layers m)))"
        by (simp add: sample_fits_def)
      moreover from v(2) False have "\<not> fless (Fin (20 - real (length (layers m)))) v"
        by (simp add: sample_fits_def)
      ultimately have "v = Fin (20 - real (length (layers m)))" by auto
      then have "v = Fin (18 - 3 * real_of_int (min 5 (1 + int k)))" using L by simp
      with tv n' False show ?thesis by simp
    qed
  qed
  have t0: "p_n_layers (t_params (trials ! 0)) = 1" "t_value (trials ! 0) = Some (Fin 15)"
    using val [of 0] by simp_all
  have t1: "p_n_layers (t_params (trials ! 1)) = 2" "t_value (trials ! 1) = None"
    using val [of 1] by simp_all
  have t2: "p_n_layers (t_params (trials ! 2)) = 3" "t_value (trials ! 2) = Some (Fin 9)"
    using val [of 2] by simp_all
  have t49: "p_n_layers (t_params (trials ! 49)) = 5" "t_value (trials ! 49) = Some (Fin 3)"
    using val [of 49] by simp_all
  have in49: "trials ! 49 \<in> set trials" using len by simp
  with t49(2) have "\<not> (\<forall>t \<in> set trials. t_value t = None)" by force
  with best obtain b v where
    b: "run_search checking_library 10 sample_fits stepping_sampler = Inr (trials, b)"
      "b \<in> set trials" "t_value b = Some v"
    and least: "\<forall>t \<in> set trials. \<forall>w. t_value t = Some w \<longrightarrow> \<not> fless w v"
    by (simp only: if_False) blast
  from least in49 t49(2) have le: "\<not> fless (Fin 3) v" by blast
  from b(2) obtain j where j: "j < 50" "b = trials ! j"
    using len by (auto simp: in_set_conv_nth)
  from val [OF j(1)] b(3) j(2) have "j \<noteq> 1"
    and "v = Fin (18 - 3 * real_of_int (min 5 (1 + int j)))"
    by (auto split: if_splits)
  with le have "v = Fin 3" by (simp add: min_def split: if_splits)
  with b t0 t1 t2 t49 len valid nonempty accepts show ?thesis by blast
qed

subsection \<open>The preprocessor on unseen levels\<close>

lemma encode_cell_length:
  "encode_cell policy v c = Inr b \<Longrightarrow> length b = length v"
  by (auto simp: encode_cell_def split: if_splits handle_unknown.splits)

lemma encode_cell_ignore:
  "\<exists>b. encode_cell Ignore v c = Inr b"
  by (simp add: encode_cell_def)

lemma encode_cell_unseen:
  "c \<notin> set v \<Longrightarrow> encode_cell Ignore v c = Inr (replicate (length v) (Fin 0))"
  by (simp add: encode_cell_def)

lemma encode_row_length:
  "encode_row policy vs cs = Inr b \<Longrightarrow> length b = sum_list (map length vs)"
proof (induction policy vs cs arbitrary: b rule: encode_row.induct)
  case (2 policy v vs c cs)
  then show ?case
    by (auto split: sum.splits dest: encode_cell_length)
qed simp_all

lemma encode_row_ignore:
  "length cs = length vs \<Longrightarrow> \<exists>b. encode_row Ignore vs cs = Inr b"
proof (induction cs vs rule: list_induct2)
  case Nil
  then show ?case by simp
next
  case (Cons c cs v vs)
  then show ?case using encode_cell_ignore [of v c] by auto
qed

lemma transform_numeric_length:
  "transform_numeric f cs = Inr a \<Longrightarrow> length a = n_features f"
  by (auto simp: transform_numeric_def split: sum.splits if_splits)

lemma transform_row_length:
  "transform_row p nums cats = Inr v \<Longrightarrow> length v = n_features_out p"
  by (auto simp: transform_row_def n_features_out_def transform_numeric_length
      encode_row_length split: sum.splits)

lemma collect_Inr: "collect rs = Inr xs \<Longrightarrow> \<forall>x \<in> set xs. Inr x \<in> set rs"
  by (induction rs arbitrary: xs) (auto split: sum.splits)

lemma transform_rows_length:
  assumes "transform p num_names cat_names x = Inr rows"
  shows "\<forall>r \<in> set rows. length r = n_features_out p"
proof
  fix r assume "r \<in> set rows"
  from assms obtain ncs ccs where
    "collect (map (\<lambda>i. transform_row p (row_cells ncs i) (row_cells ccs i)) [0..<len x]) = Inr rows"
    by (auto simp: transform_def split: sum.splits)
  from collect_Inr [OF this] \<open>r \<in> set rows\<close>
  obtain i where "transform_row p (row_cells ncs i) (row_cells ccs i) = Inr r" by auto
  then show "length r = n_features_out p" by (rule transform_row_length)
qed

lemma fit_policy:
  "fit_notebook_preprocessor f cat_names x_train = Inr p \<Longrightarrow>
     unknown_policy p = Ignore \<and> num_part p = f \<and> length (categories p) = length cat_names"
proof -
  have len: "select_cols df ns = Inr cs \<Longrightarrow> length cs = length ns" for df ns cs
    by (induction ns arbitrary: cs) (auto split: option.splits sum.splits)
  assume "fit_notebook_preprocessor f cat_names x_train = Inr p"
  then show ?thesis
    by (auto simp: fit_notebook_preprocessor_def fit_preprocessor_def len split: sum.splits)
qed

text \<open>
  C8. For the preprocessor fitted as the notebooks configure it: every row it transforms,
  of the training part or of the test part, has the same number of output columns, the one
  fixed by the fit; a row with a numeric part the numeric transform accepts and one entry
  per categorical column is transformed without an error, whatever its categorical levels;
  and a level that is not in the vocabulary of its column is encoded as the all-zero block
  of the vocabulary's length.
\<close>

theorem unseen_levels_zero_block:
  assumes "fit_notebook_preprocessor f cat_names x_train = Inr p"
  shows "(\<forall>rows. transform p num_names cat_names x_train = Inr rows \<longrightarrow>
            (\<forall>r \<in> set rows. length r = n_features_out p)) \<and>
         (\<forall>x_test rows. transform p num_names cat_names x_test = Inr rows \<longrightarrow>
            (\<forall>r \<in> set rows. length r = n_features_out p)) \<and>
         (\<forall>nums cats a. transform_numeric f nums = Inr a \<and> length cats = length cat_names \<longrightarrow>
            (\<exists>b. encode_row (unknown_policy p) (categories p) cats = Inr b \<and>
                 transform_row p nums cats = Inr (a @ b) \<and>
                 length (a @ b) = n_features_out p)) \<and>
         (\<forall>vocabulary \<in> set (categories p). \<forall>c. c \<notin> set vocabulary \<longrightarrow>
            encode_cell (unknown_policy p) vocabulary c =
              Inr (replicate (length vocabulary) (Fin 0)))"
proof -
  from fit_policy [OF assms] have pol: "unknown_policy p = Ignore" and num: "num_part p = f"
    and len: "length (categories p) = length cat_names"
    by simp_all
  have rows: "\<forall>x rows. transform p num_names cat_names x = Inr rows \<longrightarrow>
            (\<forall>r \<in> set rows. length r = n_features_out p)"
    using transform_rows_length by blast
  have row: "\<exists>b. encode_row (unknown_policy p) (categories p) cats = Inr b \<and>
                 transform_row p nums cats = Inr (a @ b) \<and>
                 length (a @ b) = n_features_out p"
    if "transform_numeric f nums = Inr a" and "length cats = length cat_names" for nums cats a
  proof -
    from that(2) len obtain b where b: "encode_row Ignore (categories p) cats = Inr b"
      using encode_row_ignore [of cats "categories p"] by auto
    then have t: "transform_row p nums cats = Inr (a @ b)"
      using that(1) by (simp add: transform_row_def pol num)
    from transform_row_length [OF t] b t show ?thesis by (simp add: pol)
  qed
  have unseen: "\<forall>vocabulary \<in> set (categories p). \<forall>c. c \<notin> set vocabulary \<longrightarrow>
            encode_cell (unknown_policy p) vocabulary c =
              Inr (replicate (length vocabulary) (Fin 0))"
    by (simp add: pol encode_cell_unseen)
  show ?thesis using rows row unseen by blast
qed

lemma sample_split:
  "train_test_split [0, 2] [1] (X_df sample_prepared) (y_values sample_prepared) =
     Inr \<lparr>X_train = sample_train, X_test = sample_test,
          y_train = NumCol [Fin 7, Fin 5], y_test = NumCol [Fin 6]\<rparr>"
  by (simp add: train_test_split_def sample_prepared_def sample_train_def sample_test_def
      len_def take_rows_def rows_at_def)

lemma fit_sample: "fit_notebook_preprocessor plain_numeric [''LC''] sample_train = Inr sample_preprocessor"
  by (simp add: fit_notebook_preprocessor_def fit_preprocessor_def sample_train_def
      sample_preprocessor_def get_col_def)

lemma upt_5: "[0..<5] = [0, 1, 2, 3, 4]" and upt_2: "[0..<2] = [0, 1]" and upt_1: "[0..<1] = [0]"
  by (simp_all add: upt_rec)

lemma transform_sample_train:
  "transform sample_preprocessor (num_cols sample_prepared) (cat_cols sample_prepared) sample_train =
     Inr [[Fin 2, Fin 0, Fin 0, Fin 2000, Fin 0, Fin 1],
          [Fin 3, Fin 4, Fin 0, Fin (3 / 4), Fin 4000, Fin 1]]"
  by (simp add: transform_def sample_prepared_def sample_train_def sample_preprocessor_def
      plain_numeric_def get_col_def len_def row_cells_def transform_row_def
      transform_numeric_def encode_cell_def upt_5 upt_2)

lemma transform_sample_test:
  "transform sample_preprocessor (num_cols sample_prepared) (cat_cols sample_prepared) sample_test =
     Inr [[Fin 0, Fin 0, Fin 2, Fin 0, Fin 0, Fin 0]]"
  by (simp add: transform_def sample_prepared_def sample_test_def sample_preprocessor_def
      plain_numeric_def get_col_def len_def row_cells_def transform_row_def
      transform_numeric_def encode_cell_def upt_5 upt_1)

theorem unseen_levels_zero_block_witness:
  "fit_notebook_preprocessor plain_numeric [''LC''] sample_train = Inr sample_preprocessor \<and>
   categories sample_preprocessor = [[ObjCell (Some ''A'')]] \<and>
   n_features_out sample_preprocessor = 6 \<and>
   transform sample_preprocessor (num_cols sample_prepared) (cat_cols sample_prepared) sample_train =
     Inr [[Fin 2, Fin 0, Fin 0, Fin 2000, Fin 0, Fin 1],
          [Fin 3, Fin 4, Fin 0, Fin (3 / 4), Fin 4000, Fin 1]] \<and>
   transform sample_preprocessor (num_cols sample_prepared) (cat_cols sample_prepared) sample_test =
     Inr [[Fin 0, Fin 0, Fin 2, Fin 0, Fin 0, Fin 0]] \<and>
   encode_cell (unknown_policy sample_preprocessor) [ObjCell (Some ''A'')] (ObjCell (Some ''B'')) =
     Inr [Fin 0]"
proof -
  have cc: "cat_cols sample_prepared = [''LC'']" by (simp add: sample_prepared_def)
  note t = unseen_levels_zero_block [OF fit_sample, of "num_cols sample_prepared"]
  have "encode_cell (unknown_policy sample_preprocessor) [ObjCell (Some ''A'')]
      (ObjCell (Some ''B'')) = Inr (replicate (length [ObjCell (Some ''A'')]) (Fin 0))"
    using t by (simp add: sample_preprocessor_def)
  moreover have "n_features_out sample_preprocessor = 6"
    using t [THEN conjunct2, THEN conjunct1, rule_format, OF transform_sample_test [unfolded cc],
        of "[Fin 0, Fin 0, Fin 2, Fin 0, Fin 0, Fin 0]"]
    by simp
  ultimately show ?thesis
    using fit_sample transform_sample_train transform_sample_test
    by (simp add: sample_preprocessor_def)
qed

end
